theory Spec2Isabelle
  imports Complex_Main
begin

section \<open>Tensors and errors\<close>

text \<open>
  The program is \<^verbatim>\<open>samformer/samformer.py\<close>: the forecasting network
  \<^verbatim>\<open>SAMFormerArchitecture\<close> and its scikit-learn style trainer \<^verbatim>\<open>SAMFormer\<close>.
  Tensors are nested lists: a batch of series has shape (n, D, L), a list of n samples,
  each a list of D channel rows of L values. Floating point numbers are idealised as
  reals. A nested list cannot tell a (0, D) matrix from a (0, 0) one, so statements
  about shapes ask for non-empty axes where a transpose is involved.
\<close>

type_synonym vec = "real list"
type_synonym mat = "real list list"
type_synonym tensor3 = "real list list list"

text \<open>What a forward pass returns: the flattened 2-D tensor or the 3-D one.\<close>

datatype tensor = T2 mat | T3 tensor3

text \<open>
  The exceptions the modelled code can raise. \<open>AttributeError t a\<close> is Python's
  \<^verbatim>\<open>'t' object has no attribute 'a'\<close>.
\<close>

datatype py_error =
    IndexError
  | ZeroDivisionError
  | ValueError
  | RuntimeError
  | UnboundLocalError
  | AttributeError string string

definition width :: "mat \<Rightarrow> nat" where
  "width m = (case m of [] \<Rightarrow> 0 | r # _ \<Rightarrow> length r)"

definition column :: "mat \<Rightarrow> nat \<Rightarrow> vec" where
  "column m c = map (\<lambda>row. row ! c) m"

definition mat_transpose :: "mat \<Rightarrow> mat" where
  "mat_transpose m = map (column m) [0..<width m]"

text \<open>\<^verbatim>\<open>x.transpose(1, 2)\<close> on a 3-D tensor.\<close>

definition transpose_1_2 :: "tensor3 \<Rightarrow> tensor3" where
  "transpose_1_2 x = map mat_transpose x"

definition dot :: "vec \<Rightarrow> vec \<Rightarrow> real" where
  "dot u v = sum_list (map2 (*) u v)"

section \<open>Linear layers\<close>

text \<open>
  \<^verbatim>\<open>nn.Linear(in_features, out_features)\<close>: \<open>weight\<close> has one row of
  \<open>in_features\<close> values per output feature, and the layer maps the last axis of its
  input, \<^verbatim>\<open>y = x W^T + b\<close>.
\<close>

record Linear =
  weight :: mat
  bias :: vec

definition Linear_row :: "Linear \<Rightarrow> vec \<Rightarrow> vec" where
  "Linear_row l v = map2 (\<lambda>w b. dot v w + b) (weight l) (bias l)"

definition Linear_call :: "Linear \<Rightarrow> tensor3 \<Rightarrow> tensor3" where
  "Linear_call l x = map (map (Linear_row l)) x"

section \<open>Reversible instance normalisation\<close>

text \<open>
  Modelled from the spec: \<^verbatim>\<open>utils/revin.py\<close> (class \<^verbatim>\<open>RevIN\<close>) is not among the
  sources. The spec (4.1): normalize computes, per channel and per sample, the mean and
  the standard deviation across the time axis, stores them, and returns
  \<^verbatim>\<open>(x - mean) / (std + eps)\<close> scaled and shifted by the learned affine parameters;
  denormalize applies the inverse affine transform, multiplies back by the stored std and
  adds back the stored mean. The normaliser is called on tensors of shape
  (n, length, channels): the time axis is axis 1. The statistics are stored as one row of
  per-channel values for each sample.
\<close>

record RevIN =
  num_features :: nat
  eps :: real
  affine_weight :: vec
  affine_bias :: vec
  mean :: mat
  stdev :: mat

datatype revin_mode = Norm | Denorm

definition mean_of :: "vec \<Rightarrow> real" where
  "mean_of v = sum_list v / real (length v)"

definition std_of :: "vec \<Rightarrow> real" where
  "std_of v = sqrt (sum_list (map (\<lambda>a. (a - mean_of v)\<^sup>2) v) / real (length v))"

definition normalize_row :: "RevIN \<Rightarrow> vec \<Rightarrow> vec \<Rightarrow> vec \<Rightarrow> vec" where
  "normalize_row r mu sd row =
     map (\<lambda>c. (row ! c - mu ! c) / (sd ! c + eps r) * affine_weight r ! c + affine_bias r ! c)
       [0..<length row]"

definition denormalize_row :: "RevIN \<Rightarrow> vec \<Rightarrow> vec \<Rightarrow> vec \<Rightarrow> vec" where
  "denormalize_row r mu sd row =
     map (\<lambda>c. (row ! c - affine_bias r ! c) / affine_weight r ! c * sd ! c + mu ! c)
       [0..<length row]"

definition RevIN_normalize :: "RevIN \<Rightarrow> tensor3 \<Rightarrow> tensor3 \<times> RevIN" where
  "RevIN_normalize r x =
     (let mu = map (\<lambda>s. map (\<lambda>c. mean_of (column s c)) [0..<width s]) x;
          sd = map (\<lambda>s. map (\<lambda>c. std_of (column s c)) [0..<width s]) x;
          r' = r\<lparr>mean := mu, stdev := sd\<rparr>
      in (map (\<lambda>(s, m, d). map (normalize_row r' m d) s) (zip x (zip mu sd)), r'))"

definition RevIN_denormalize :: "RevIN \<Rightarrow> tensor3 \<Rightarrow> tensor3 \<times> RevIN" where
  "RevIN_denormalize r y =
     (map (\<lambda>(s, m, d). map (denormalize_row r m d) s) (zip y (zip (mean r) (stdev r))), r)"

definition RevIN_call :: "RevIN \<Rightarrow> tensor3 \<Rightarrow> revin_mode \<Rightarrow> tensor3 \<times> RevIN" where
  "RevIN_call r x mode =
     (case mode of Norm \<Rightarrow> RevIN_normalize r x | Denorm \<Rightarrow> RevIN_denormalize r x)"

section \<open>Channel-wise attention\<close>

text \<open>
  Modelled from the spec: \<^verbatim>\<open>utils/attention.py\<close> (the fallback
  \<^verbatim>\<open>scaled_dot_product_attention\<close>) is not among the sources. The spec (4.2):
  \<^verbatim>\<open>softmax(queries . keys^T / sqrt(hidden_dim)) . values\<close>, with each channel a
  token, no mask and no dropout; the fused kernel of the library computes the same
  function.
\<close>

definition softmax :: "vec \<Rightarrow> vec" where
  "softmax v = map (\<lambda>a. exp a / sum_list (map exp v)) v"

definition attend :: "mat \<Rightarrow> mat \<Rightarrow> mat \<Rightarrow> mat" where
  "attend q k v =
     map (\<lambda>qi. let p = softmax (map (\<lambda>kj. dot qi kj / sqrt (real (length qi))) k)
               in map (\<lambda>c. dot p (column v c)) [0..<width v]) q"

definition scaled_dot_product_attention :: "tensor3 \<Rightarrow> tensor3 \<Rightarrow> tensor3 \<Rightarrow> tensor3" where
  "scaled_dot_product_attention q k v = map (\<lambda>(a, b, c). attend a b c) (zip q (zip k v))"

definition F_scaled_dot_product_attention :: "tensor3 \<Rightarrow> tensor3 \<Rightarrow> tensor3 \<Rightarrow> tensor3" where
  "F_scaled_dot_product_attention q k v = map (\<lambda>(a, b, c). attend a b c) (zip q (zip k v))"

definition tensor_add :: "tensor3 \<Rightarrow> tensor3 \<Rightarrow> tensor3" where
  "tensor_add a b = map2 (map2 (map2 (+))) a b"

section \<open>The network\<close>

text \<open>
  \<^verbatim>\<open>SAMFormerArchitecture\<close>: the five sub-modules, the \<^verbatim>\<open>use_revin\<close> flag and
  the \<^verbatim>\<open>training\<close> flag every \<^verbatim>\<open>nn.Module\<close> has (set by \<^verbatim>\<open>train()\<close> and
  \<^verbatim>\<open>eval()\<close>).
\<close>

record SAMFormerArchitecture =
  revin :: RevIN
  compute_keys :: Linear
  compute_queries :: Linear
  compute_values :: Linear
  linear_forecaster :: Linear
  use_revin :: bool
  training :: bool

text \<open>
  \<^verbatim>\<open>SAMFormerArchitecture.forward\<close>. The first argument says whether
  \<^verbatim>\<open>hasattr(nn.functional, 'scaled_dot_product_attention')\<close> holds. The normaliser
  keeps its statistics in its fields, so the network is returned with the output.
\<close>

definition forward :: "bool \<Rightarrow> SAMFormerArchitecture \<Rightarrow> tensor3 \<Rightarrow> bool \<Rightarrow> tensor \<times> SAMFormerArchitecture" where
  "forward has_sdpa net x flatten_output =
     (let (x_norm, r1) =
            (if use_revin net
             then (let (t, r) = RevIN_call (revin net) (transpose_1_2 x) Norm
                   in (transpose_1_2 t, r))
             else (x, revin net));
          queries = Linear_call (compute_queries net) x_norm;
          keys = Linear_call (compute_keys net) x_norm;
          values = Linear_call (compute_values net) x_norm;
          att_score =
            (if has_sdpa then F_scaled_dot_product_attention queries keys values
             else scaled_dot_product_attention queries keys values);
          out = tensor_add x_norm att_score;
          out = Linear_call (linear_forecaster net) out;
          (out, r2) =
            (if use_revin net
             then (let (t, r) = RevIN_call r1 (transpose_1_2 out) Denorm
                   in (transpose_1_2 t, r))
             else (out, r1))
      in (if flatten_output then T2 (map concat out) else T3 out, net\<lparr>revin := r2\<rparr>))"

section \<open>The trainer\<close>

text \<open>
  \<^verbatim>\<open>SAMFormer\<close>: the fields \<^verbatim>\<open>__init__\<close> sets. The criterion is always
  \<^verbatim>\<open>nn.MSELoss()\<close> and is not a field here. The base optimizer is a class, named by
  its name.
\<close>

record SAMFormer =
  network :: "SAMFormerArchitecture option"
  device :: string
  num_epochs :: nat
  batch_size :: int
  base_optimizer :: string
  learning_rate :: real
  weight_decay :: real
  rho :: real
  sf_use_revin :: bool
  random_state :: "int option"

definition SAMFormer_init ::
  "string \<Rightarrow> nat \<Rightarrow> int \<Rightarrow> string \<Rightarrow> real \<Rightarrow> real \<Rightarrow> real \<Rightarrow> bool \<Rightarrow> int option \<Rightarrow> SAMFormer" where
  "SAMFormer_init dev epochs bs base lr wd rh revin_flag seed =
     \<lparr>network = None, device = dev, num_epochs = epochs, batch_size = bs,
      base_optimizer = base, learning_rate = lr, weight_decay = wd, rho = rh,
      sf_use_revin = revin_flag, random_state = seed\<rparr>"

section \<open>Fitting\<close>

text \<open>
  The arrays handed to \<^verbatim>\<open>fit\<close> are read through \<^verbatim>\<open>shape\<close> only, so they are
  kept as a shape and the flat list of their values. Indexing a shape tuple past its end
  raises.
\<close>

record ndarray =
  shape :: "nat list"
  items :: vec

definition shape_at :: "nat list \<Rightarrow> nat \<Rightarrow> py_error + nat" where
  "shape_at sh i = (if i < length sh then Inr (sh ! i) else Inl IndexError)"

definition floordiv :: "nat \<Rightarrow> nat \<Rightarrow> py_error + nat" where
  "floordiv a b = (if b = 0 then Inl ZeroDivisionError else Inr (a div b))"

text \<open>
  The arguments of the constructor call in \<^verbatim>\<open>fit\<close>, evaluated left to right:
  \<^verbatim>\<open>num_channels=x.shape[1], seq_len=x.shape[2], hid_dim=16,
  pred_horizon=y.shape[1] // x.shape[1]\<close>.
\<close>

definition network_args :: "ndarray \<Rightarrow> ndarray \<Rightarrow> py_error + (nat \<times> nat \<times> nat \<times> nat)" where
  "network_args x y =
     (case shape_at (shape x) 1 of
        Inl e \<Rightarrow> Inl e
      | Inr num_channels \<Rightarrow>
          (case shape_at (shape x) 2 of
             Inl e \<Rightarrow> Inl e
           | Inr seq_len \<Rightarrow>
               (case shape_at (shape y) 1 of
                  Inl e \<Rightarrow> Inl e
                | Inr w \<Rightarrow>
                    (case shape_at (shape x) 1 of
                       Inl e \<Rightarrow> Inl e
                     | Inr d \<Rightarrow>
                         (case floordiv w d of
                            Inl e \<Rightarrow> Inl e
                          | Inr pred_horizon \<Rightarrow> Inr (num_channels, seq_len, 16, pred_horizon))))))"

text \<open>
  A random number generator is a deterministic machine: its state is fixed by the seed
  and the number of draws since, or it is some state \<open>Entropy k\<close> the process started
  with.
\<close>

datatype gen = Seeded int nat | Entropy nat

text \<open>
  The calls \<^verbatim>\<open>fit\<close> and \<^verbatim>\<open>forecast\<close> make on the generators, the network,
  the criterion, the loss, the optimizer and the library (the data loader, the
  \<^verbatim>\<open>no_grad\<close> context, \<^verbatim>\<open>torch.cat\<close>), in the order they make them. Moving tensors
  to a device and reading the loss value are not recorded.
\<close>

datatype call =
    ManualSeed int
  | RandomSeed int
  | NpRandomSeed int
  | CudaManualSeedAll int
  | Construct nat nat nat nat bool
  | CriterionTo string
  | NetworkTo string
  | NetworkTrain
  | NewSAM string real real real
  | NewDataLoader int bool
  | Forward
  | Criterion
  | Backward
  | FirstStep bool
  | SecondStep bool
  | ZeroGrad
  | Step
  | SetDescription nat
  | NetworkEval
  | NoGradEnter
  | NoGradExit
  | Cat

text \<open>The state outside the objects: the four generators and the calls made so far.\<close>

record world =
  torch_rng :: gen
  python_rng :: gen
  numpy_rng :: gen
  cuda_rng :: gen
  calls :: "call list"

text \<open>
  What the code calls and the sources do not hold, taken as parameters: the random
  initialisation of \<^verbatim>\<open>nn.Linear\<close>, the constructor of \<^verbatim>\<open>RevIN\<close>, the optimizer
  \<^verbatim>\<open>SAM\<close> (its constructor, the name of its class, its two steps, and the
  \<^verbatim>\<open>zero_grad\<close> and \<^verbatim>\<open>step\<close> of an optimizer), one pass over the shuffling data
  loader, the criterion, and \<^verbatim>\<open>loss.backward()\<close>. \<open>'o\<close> is the state of the
  optimizer together with the gradients.
\<close>

record 'o torch =
  has_sdpa :: bool
  Linear_new :: "nat \<Rightarrow> nat \<Rightarrow> gen \<Rightarrow> Linear \<times> gen"
  RevIN_new :: "nat \<Rightarrow> RevIN"
  SAM_new :: "SAMFormerArchitecture \<Rightarrow> string \<Rightarrow> real \<Rightarrow> real \<Rightarrow> real \<Rightarrow> 'o"
  optimizer_class_name :: string
  loader_iter :: "int \<Rightarrow> ndarray \<Rightarrow> ndarray \<Rightarrow> gen \<Rightarrow> (tensor3 \<times> mat) list \<times> gen"
  criterion :: "tensor \<Rightarrow> mat \<Rightarrow> py_error + real"
  backward :: "SAMFormerArchitecture \<Rightarrow> tensor3 \<Rightarrow> mat \<Rightarrow> 'o \<Rightarrow> 'o"
  first_step :: "bool \<Rightarrow> SAMFormerArchitecture \<Rightarrow> 'o \<Rightarrow> SAMFormerArchitecture \<times> 'o"
  second_step :: "bool \<Rightarrow> SAMFormerArchitecture \<Rightarrow> 'o \<Rightarrow> SAMFormerArchitecture \<times> 'o"
  zero_grad :: "'o \<Rightarrow> 'o"
  step :: "SAMFormerArchitecture \<Rightarrow> 'o \<Rightarrow> SAMFormerArchitecture \<times> 'o"

text \<open>
  \<^verbatim>\<open>SAMFormerArchitecture.__init__\<close>: the sub-modules are built in the order of the
  source, each linear layer drawing its weights from the generator. A new module is in
  training mode.
\<close>

definition SAMFormerArchitecture_init ::
  "'o torch \<Rightarrow> nat \<Rightarrow> nat \<Rightarrow> nat \<Rightarrow> nat \<Rightarrow> bool \<Rightarrow> gen \<Rightarrow> SAMFormerArchitecture \<times> gen" where
  "SAMFormerArchitecture_init B num_channels seq_len hid_dim pred_horizon revin_flag g =
     (let (keys, g1) = Linear_new B seq_len hid_dim g;
          (queries, g2) = Linear_new B seq_len hid_dim g1;
          (vals, g3) = Linear_new B seq_len seq_len g2;
          (forecaster, g4) = Linear_new B seq_len pred_horizon g3
      in (\<lparr>revin = RevIN_new B num_channels, compute_keys = keys, compute_queries = queries,
           compute_values = vals, linear_forecaster = forecaster, use_revin = revin_flag,
           training = True\<rparr>, g4))"

text \<open>
  The state of the training loop: the network, the optimizer, the world, the losses
  of the current epoch, and the exception that ended the loop, if any.
\<close>

record 'o trainer =
  net :: SAMFormerArchitecture
  opt :: 'o
  wld :: world
  loss_list :: "real list"
  raised :: "py_error option"

definition record_calls :: "call list \<Rightarrow> world \<Rightarrow> world" where
  "record_calls cs w = w\<lparr>calls := calls w @ cs\<rparr>"

text \<open>The body of the loop over the batches.\<close>

definition fit_batch :: "'o torch \<Rightarrow> 'o trainer \<Rightarrow> tensor3 \<times> mat \<Rightarrow> 'o trainer" where
  "fit_batch B st b =
     (let (x_batch, y_batch) = b;
          (out_batch, n1) = forward (has_sdpa B) (net st) x_batch True
      in (case criterion B out_batch y_batch of
            Inl e \<Rightarrow>
              st\<lparr>net := n1, wld := record_calls [Forward, Criterion] (wld st), raised := Some e\<rparr>
          | Inr loss \<Rightarrow>
              (if optimizer_class_name B = ''SAM''
               then
                 (let o1 = backward B n1 x_batch y_batch (opt st);
                      (n2, o2) = first_step B True n1 o1;
                      (out_batch2, n3) = forward (has_sdpa B) n2 x_batch True
                  in (case criterion B out_batch2 y_batch of
                        Inl e \<Rightarrow>
                          st\<lparr>net := n3, opt := o2,
                             wld := record_calls
                               [Forward, Criterion, Backward, FirstStep True, Forward, Criterion]
                               (wld st),
                             raised := Some e\<rparr>
                      | Inr loss2 \<Rightarrow>
                          (let o3 = backward B n3 x_batch y_batch o2;
                               (n4, o4) = second_step B True n3 o3
                           in st\<lparr>net := n4, opt := o4,
                                 wld := record_calls
                                   [Forward, Criterion, Backward, FirstStep True,
                                    Forward, Criterion, Backward, SecondStep True]
                                   (wld st),
                                 loss_list := loss_list st @ [loss2]\<rparr>)))
               else
                 (let o1 = zero_grad B (opt st);
                      o2 = backward B n1 x_batch y_batch o1;
                      (n2, o3) = step B n1 o2
                  in st\<lparr>net := n2, opt := o3,
                        wld := record_calls [Forward, Criterion, ZeroGrad, Backward, Step] (wld st),
                        loss_list := loss_list st @ [loss]\<rparr>))))"

text \<open>The loop over the batches of one epoch: an exception ends it.\<close>

fun fit_batches :: "'o torch \<Rightarrow> 'o trainer \<Rightarrow> (tensor3 \<times> mat) list \<Rightarrow> 'o trainer" where
  "fit_batches B st [] = st"
| "fit_batches B st (b # bs) =
     (let st' = fit_batch B st b
      in if raised st' \<noteq> None then st' else fit_batches B st' bs)"

text \<open>
  The loop over the epochs: a new loss list, one pass over the shuffled loader (which
  draws from the generator of the library), then \<^verbatim>\<open>self.network.train()\<close> and the
  progress line.
\<close>

fun fit_epochs :: "'o torch \<Rightarrow> int \<Rightarrow> ndarray \<Rightarrow> ndarray \<Rightarrow> 'o trainer \<Rightarrow> nat list \<Rightarrow> 'o trainer" where
  "fit_epochs B bsz x y st [] = st"
| "fit_epochs B bsz x y st (epoch # rest) =
     (let (batches, g) = loader_iter B bsz x y (torch_rng (wld st));
          st1 = fit_batches B (st\<lparr>loss_list := [], wld := (wld st)\<lparr>torch_rng := g\<rparr>\<rparr>) batches
      in if raised st1 \<noteq> None then st1
         else fit_epochs B bsz x y
                (st1\<lparr>net := (net st1)\<lparr>training := True\<rparr>,
                     wld := record_calls [NetworkTrain, SetDescription epoch] (wld st1)\<rparr>)
                rest)"

text \<open>
  The seeding block that opens \<^verbatim>\<open>fit\<close>, with the exception it can end in. The
  four calls belong to the libraries, which document what they accept:
  \<^verbatim>\<open>torch.manual_seed\<close> sets the seed on all devices and raises
  \<^verbatim>\<open>RuntimeError\<close> for a seed outside \<^verbatim>\<open>[-0x8000_0000_0000_0000,
  0xffff_ffff_ffff_ffff]\<close>; \<^verbatim>\<open>random.seed\<close> takes every integer;
  \<^verbatim>\<open>np.random.seed\<close> raises \<^verbatim>\<open>ValueError\<close> for a seed outside
  \<^verbatim>\<open>[0, 2**32 - 1]\<close>; \<^verbatim>\<open>torch.cuda.manual_seed_all\<close> is reached with a seed
  the other three took. A call that raises is recorded like the others.
\<close>

definition fit_seed :: "int option \<Rightarrow> world \<Rightarrow> py_error option \<times> world" where
  "fit_seed seed w =
     (case seed of
        None \<Rightarrow> (None, w)
      | Some s \<Rightarrow>
          (if s < - (2 ^ 63) \<or> 2 ^ 64 - 1 < s
           then (Some RuntimeError, record_calls [ManualSeed s] w)
           else
             (let w1 = record_calls [ManualSeed s] (w\<lparr>torch_rng := Seeded s 0, cuda_rng := Seeded s 0\<rparr>);
                  w2 = record_calls [RandomSeed s] (w1\<lparr>python_rng := Seeded s 0\<rparr>)
              in if s < 0 \<or> 2 ^ 32 - 1 < s
                 then (Some ValueError, record_calls [NpRandomSeed s] w2)
                 else
                   (let w3 = record_calls [NpRandomSeed s] (w2\<lparr>numpy_rng := Seeded s 0\<rparr>)
                    in (None, record_calls [CudaManualSeedAll s] (w3\<lparr>cuda_rng := Seeded s 0\<rparr>))))))"

text \<open>
  \<^verbatim>\<open>SAMFormer.fit\<close> from line 81 on, once the network \<open>n0\<close> is built and assigned
  to \<^verbatim>\<open>self.network\<close>: the criterion and the network are placed on the device, the
  network is put in training mode, the optimizer and the shuffling data loader are created
  (the loader refuses a batch size that is not positive), and the epochs are run. Training
  changes the object \<^verbatim>\<open>self.network\<close> holds.
\<close>

definition fit_train ::
  "'o torch \<Rightarrow> SAMFormer \<Rightarrow> ndarray \<Rightarrow> ndarray \<Rightarrow> SAMFormerArchitecture \<Rightarrow> world
     \<Rightarrow> py_error option \<times> SAMFormer \<times> world" where
  "fit_train B self x y n0 w =
     (let w2 = record_calls [CriterionTo (device self), NetworkTo (device self), NetworkTrain] w;
          n1 = n0\<lparr>training := True\<rparr>;
          optimizer = SAM_new B n1 (base_optimizer self) (rho self) (learning_rate self)
                        (weight_decay self);
          w3 = record_calls
                 [NewSAM (base_optimizer self) (rho self) (learning_rate self) (weight_decay self),
                  NewDataLoader (batch_size self) True] w2
      in if batch_size self \<le> 0
         then (Some ValueError, self\<lparr>network := Some n1\<rparr>, w3)
         else
           (let st = fit_epochs B (batch_size self) x y
                       \<lparr>net = n1, opt = optimizer, wld = w3, loss_list = [], raised = None\<rparr>
                       [0..<num_epochs self]
            in (raised st, self\<lparr>network := Some (net st)\<rparr>, wld st)))"

text \<open>
  \<^verbatim>\<open>SAMFormer.fit\<close>. The result is the exception raised, if any, with the instance
  and the world as the call leaves them. An exception of the seeding block or of the
  evaluation of the constructor's arguments leaves \<^verbatim>\<open>self.network\<close> as it was.
\<close>

definition fit :: "'o torch \<Rightarrow> SAMFormer \<Rightarrow> ndarray \<Rightarrow> ndarray \<Rightarrow> world \<Rightarrow> py_error option \<times> SAMFormer \<times> world" where
  "fit B self x y w =
     (case fit_seed (random_state self) w of
        (Some e, w1) \<Rightarrow> (Some e, self, w1)
      | (None, w1) \<Rightarrow>
          (case network_args x y of
             Inl e \<Rightarrow> (Some e, self, w1)
           | Inr (num_channels, seq_len, hid_dim, pred_horizon) \<Rightarrow>
               (let (n0, g) = SAMFormerArchitecture_init B num_channels seq_len hid_dim pred_horizon
                                (sf_use_revin self) (torch_rng w1)
                in fit_train B self x y n0
                     (record_calls
                        [Construct num_channels seq_len hid_dim pred_horizon (sf_use_revin self)]
                        (w1\<lparr>torch_rng := g\<rparr>)))))"

section \<open>Forecasting\<close>

text \<open>
  \<^verbatim>\<open>DataLoader(dataset, batch_size, shuffle=False)\<close>: consecutive groups of
  \<open>batch_size\<close> samples, the last one shorter when the sizes do not divide.
\<close>

function batches_of :: "nat \<Rightarrow> 'a list \<Rightarrow> 'a list list" where
  "batches_of n xs = (if n = 0 \<or> xs = [] then [] else take n xs # batches_of n (drop n xs))"
  by pat_completeness auto
termination
  by (relation "measure (\<lambda>(n, xs). length xs)") auto

text \<open>
  The loop of \<^verbatim>\<open>forecast\<close>: one forward pass per batch, inside
  \<^verbatim>\<open>torch.no_grad()\<close> and with the default \<^verbatim>\<open>flatten_output=True\<close>, the outputs
  appended in the order of the batches.
\<close>

fun forecast_loop ::
  "bool \<Rightarrow> SAMFormerArchitecture \<Rightarrow> tensor3 list \<Rightarrow> tensor list \<Rightarrow> world
     \<Rightarrow> tensor list \<times> SAMFormerArchitecture \<times> world" where
  "forecast_loop sdpa n [] outs w = (outs, n, w)"
| "forecast_loop sdpa n (b # bs) outs w =
     (let (out, n') = forward sdpa n b True
      in forecast_loop sdpa n' bs (outs @ [out])
           (record_calls [NoGradEnter, Forward, NoGradExit] w))"

text \<open>
  \<^verbatim>\<open>torch.cat\<close> along axis 0: it refuses an empty list and tensors of different rank.
\<close>

fun torch_cat :: "tensor list \<Rightarrow> py_error + tensor" where
  "torch_cat [] = Inl RuntimeError"
| "torch_cat [t] = Inr t"
| "torch_cat (t # ts) =
     (case torch_cat ts of
        Inl e \<Rightarrow> Inl e
      | Inr u \<Rightarrow>
          (case (t, u) of
             (T2 a, T2 b) \<Rightarrow> Inr (T2 (a @ b))
           | (T3 a, T3 b) \<Rightarrow> Inr (T3 (a @ b))
           | _ \<Rightarrow> Inl RuntimeError))"

text \<open>
  \<^verbatim>\<open>SAMFormer.forecast\<close>. The result is the exception or the array returned, with
  the instance and the world as the call leaves them. \<^verbatim>\<open>self.network.eval()\<close> comes
  first: on an instance whose \<^verbatim>\<open>network\<close> is still \<^verbatim>\<open>None\<close> the attribute lookup
  raises. The data loader refuses a batch size that is not positive.
\<close>

definition forecast ::
  "bool \<Rightarrow> SAMFormer \<Rightarrow> tensor3 \<Rightarrow> int \<Rightarrow> world \<Rightarrow> (py_error + tensor) \<times> SAMFormer \<times> world" where
  "forecast sdpa self x bs w =
     (case network self of
        None \<Rightarrow> (Inl (AttributeError ''NoneType'' ''eval''), self, w)
      | Some n \<Rightarrow>
          (let n0 = n\<lparr>training := False\<rparr>;
               w1 = record_calls [NetworkEval, NewDataLoader bs False] w
           in if bs \<le> 0 then (Inl ValueError, self\<lparr>network := Some n0\<rparr>, w1)
              else
                (let (outs, n1, w2) = forecast_loop sdpa n0 (batches_of (nat bs) x) [] w1
                 in (torch_cat outs, self\<lparr>network := Some n1\<rparr>, record_calls [Cat] w2))))"

definition predict ::
  "bool \<Rightarrow> SAMFormer \<Rightarrow> tensor3 \<Rightarrow> int \<Rightarrow> world \<Rightarrow> (py_error + tensor) \<times> SAMFormer \<times> world" where
  "predict sdpa self x bs w = forecast sdpa self x bs w"

section \<open>The protocol in the words of the specification\<close>

text \<open>
  The specification (4.6) gives the training of one batch as a sequence of steps. In SAM
  mode: forward, loss, backward, \<^verbatim>\<open>ascent_step\<close> zeroing the gradients, forward again,
  loss again, backward again, \<^verbatim>\<open>descent_step\<close> zeroing the gradients. The steps of the
  optimizer are \<^verbatim>\<open>first_step\<close> and \<^verbatim>\<open>second_step\<close> in the source.
\<close>

definition sam_batch_calls :: "call list" where
  "sam_batch_calls =
     [Forward, Criterion, Backward, FirstStep True, Forward, Criterion, Backward, SecondStep True]"

text \<open>
  The sequence of the other branch of the source, in the order the source runs it.
\<close>

definition plain_batch_calls :: "call list" where
  "plain_batch_calls = [Forward, Criterion, ZeroGrad, Backward, Step]"

definition batch_calls :: "'o torch \<Rightarrow> call list" where
  "batch_calls B = (if optimizer_class_name B = ''SAM'' then sam_batch_calls else plain_batch_calls)"

text \<open>
  What \<^verbatim>\<open>fit\<close> calls before the first epoch: the four seeding calls when a seed is set,
  then the construction of the network, the placement on the device, training mode, the
  optimizer and the data loader.
\<close>

definition seed_calls :: "int option \<Rightarrow> call list" where
  "seed_calls seed =
     (case seed of None \<Rightarrow> [] | Some s \<Rightarrow> [ManualSeed s, RandomSeed s, NpRandomSeed s, CudaManualSeedAll s])"

definition setup_calls :: "SAMFormer \<Rightarrow> ndarray \<Rightarrow> ndarray \<Rightarrow> call list" where
  "setup_calls self x y =
     (case network_args x y of
        Inl e \<Rightarrow> []
      | Inr (num_channels, seq_len, hid_dim, pred_horizon) \<Rightarrow>
          [Construct num_channels seq_len hid_dim pred_horizon (sf_use_revin self),
           CriterionTo (device self), NetworkTo (device self), NetworkTrain,
           NewSAM (base_optimizer self) (rho self) (learning_rate self) (weight_decay self),
           NewDataLoader (batch_size self) True])"

text \<open>
  The number of batches the loader yields in each epoch, starting from the generator state
  the loop starts with: the state after the seeding and the construction of the network.
\<close>

fun epoch_sizes :: "'o torch \<Rightarrow> int \<Rightarrow> ndarray \<Rightarrow> ndarray \<Rightarrow> gen \<Rightarrow> nat list \<Rightarrow> nat list" where
  "epoch_sizes B bsz x y g [] = []"
| "epoch_sizes B bsz x y g (epoch # rest) =
     (let (batches, g') = loader_iter B bsz x y g
      in length batches # epoch_sizes B bsz x y g' rest)"

definition loader_gen :: "'o torch \<Rightarrow> SAMFormer \<Rightarrow> ndarray \<Rightarrow> ndarray \<Rightarrow> world \<Rightarrow> gen" where
  "loader_gen B self x y w =
     (case network_args x y of
        Inl e \<Rightarrow> torch_rng (snd (fit_seed (random_state self) w))
      | Inr (num_channels, seq_len, hid_dim, pred_horizon) \<Rightarrow>
          snd (SAMFormerArchitecture_init B num_channels seq_len hid_dim pred_horizon
                 (sf_use_revin self) (torch_rng (snd (fit_seed (random_state self) w)))))"

text \<open>
  One epoch over \<open>k\<close> batches, closed by \<^verbatim>\<open>self.network.train()\<close> and the progress line.
\<close>

definition epoch_calls :: "call list \<Rightarrow> nat \<Rightarrow> nat \<Rightarrow> call list" where
  "epoch_calls per_batch k epoch =
     concat (replicate k per_batch) @ [NetworkTrain, SetDescription epoch]"

section \<open>A small backend for concrete runs\<close>

text \<open>
  A backend on which \<^verbatim>\<open>fit\<close> can be run by hand: linear layers start at zero, the
  normaliser starts with weight one and bias zero, the optimizer does nothing (its state is
  \<open>()\<close>), the loader yields the data in order, and the criterion is the mean squared error,
  which refuses tensors of different shapes (the library broadcasts axes of size one; the
  runs below have none).
\<close>

definition same_shape :: "mat \<Rightarrow> mat \<Rightarrow> bool" where
  "same_shape a b = (map length a = map length b)"

definition mse_loss :: "tensor \<Rightarrow> mat \<Rightarrow> py_error + real" where
  "mse_loss out y =
     (case out of
        T2 m \<Rightarrow>
          (if same_shape m y
           then Inr (mean_of (map (\<lambda>(a, b). (a - b)\<^sup>2) (zip (concat m) (concat y))))
           else Inl RuntimeError)
      | T3 t \<Rightarrow> Inl RuntimeError)"

definition draw :: "gen \<Rightarrow> gen" where
  "draw g = (case g of Seeded s k \<Rightarrow> Seeded s (Suc k) | Entropy k \<Rightarrow> Entropy (Suc k))"

definition toy_loader :: "int \<Rightarrow> ndarray \<Rightarrow> ndarray \<Rightarrow> gen \<Rightarrow> (tensor3 \<times> mat) list \<times> gen" where
  "toy_loader bs x y g =
     (zip (batches_of (nat bs) (map (batches_of (shape x ! 2)) (batches_of (shape x ! 1 * shape x ! 2) (items x))))
          (batches_of (nat bs) (batches_of (shape y ! 1) (items y))), draw g)"

definition toy_torch :: "string \<Rightarrow> unit torch" where
  "toy_torch cls =
     \<lparr>has_sdpa = True,
      Linear_new = (\<lambda>i k g. (\<lparr>weight = replicate k (replicate i 0), bias = replicate k 0\<rparr>, draw g)),
      RevIN_new = (\<lambda>d. \<lparr>num_features = d, eps = 1 / 100000, affine_weight = replicate d 1,
                        affine_bias = replicate d 0, mean = [], stdev = []\<rparr>),
      SAM_new = (\<lambda>n b r l d. ()),
      optimizer_class_name = cls,
      loader_iter = toy_loader,
      criterion = mse_loss,
      backward = (\<lambda>n x y s. s),
      first_step = (\<lambda>z n s. (n, s)),
      second_step = (\<lambda>z n s. (n, s)),
      zero_grad = (\<lambda>s. s),
      step = (\<lambda>n s. (n, s))\<rparr>"

definition toy_world :: world where
  "toy_world = \<lparr>torch_rng = Entropy 2, python_rng = Entropy 3, numpy_rng = Entropy 4, cuda_rng = Entropy 5, calls = []\<rparr>"

text \<open>
  The network that backend builds, and the instances, arrays and worlds of the runs.
\<close>

definition toy_net :: "nat \<Rightarrow> nat \<Rightarrow> nat \<Rightarrow> nat \<Rightarrow> bool \<Rightarrow> SAMFormerArchitecture" where
  "toy_net d l h p rv =
     \<lparr>revin = \<lparr>num_features = d, eps = 1 / 100000, affine_weight = replicate d 1,
                affine_bias = replicate d 0, mean = [], stdev = []\<rparr>,
      compute_keys = \<lparr>weight = replicate h (replicate l 0), bias = replicate h 0\<rparr>,
      compute_queries = \<lparr>weight = replicate h (replicate l 0), bias = replicate h 0\<rparr>,
      compute_values = \<lparr>weight = replicate l (replicate l 0), bias = replicate l 0\<rparr>,
      linear_forecaster = \<lparr>weight = replicate p (replicate l 0), bias = replicate p 0\<rparr>,
      use_revin = rv, training = True\<rparr>"

definition toy_self :: "nat \<Rightarrow> int option \<Rightarrow> SAMFormer" where
  "toy_self epochs seed = SAMFormer_init ''cpu'' epochs 256 ''Adam'' (1/1000) (1/100000) (1/2) False seed"

text \<open>
  The world when the loop over the epochs starts.
\<close>

definition setup_world :: "SAMFormer \<Rightarrow> ndarray \<Rightarrow> ndarray \<Rightarrow> gen \<Rightarrow> world \<Rightarrow> world" where
  "setup_world self x y g w =
     record_calls (setup_calls self x y) ((snd (fit_seed (random_state self) w))\<lparr>torch_rng := g\<rparr>)"

definition toy_x :: ndarray where
  "toy_x = \<lparr>shape = [2, 2, 2], items = [1, 1, 1, 1, 1, 1, 1, 1]\<rparr>"

definition toy_y :: "nat \<Rightarrow> ndarray" where
  "toy_y w = \<lparr>shape = [2, w], items = replicate (2 * w) 1\<rparr>"

definition toy_batch :: "tensor3 \<times> mat" where
  "toy_batch = ([[[1,1],[1,1]],[[1,1],[1,1]]], [[1,1,1,1],[1,1,1,1]])"

definition toy_world2 :: world where
  "toy_world2 = \<lparr>torch_rng = Entropy 12, python_rng = Seeded 7 3, numpy_rng = Entropy 14, cuda_rng = Entropy 15, calls = []\<rparr>"

section \<open>The steps of a batch, run one after the other\<close>

text \<open>
  The specification (4.6, 5) gives the training of a batch as a sequence of steps, each
  complete before the next begins. To run such a sequence, every step is given its effect on
  what the body of the loop works on: the state of the trainer and the local variables
  \<^verbatim>\<open>out_batch\<close> and \<^verbatim>\<open>loss\<close>. A step reads the state the step before it left:
  a forward pass runs the network as it is then, the loss is computed from the latest output,
  \<^verbatim>\<open>backward\<close> needs a loss and adds to the gradients, and the steps of the optimizer
  act on the network and the gradients as they are then.
\<close>

record 'o frame =
  tr :: "'o trainer"
  out_batch :: "tensor option"
  cur_loss :: "real option"
  failed :: "py_error option"

fun run_call :: "'o torch \<Rightarrow> tensor3 \<times> mat \<Rightarrow> call \<Rightarrow> 'o frame \<Rightarrow> 'o frame" where
  "run_call B (xb, yb) Forward f =
     (let (out, n') = forward (has_sdpa B) (net (tr f)) xb True
      in f\<lparr>tr := (tr f)\<lparr>net := n'\<rparr>, out_batch := Some out\<rparr>)"
| "run_call B (xb, yb) Criterion f =
     (case out_batch f of
        None \<Rightarrow> f\<lparr>failed := Some UnboundLocalError\<rparr>
      | Some out \<Rightarrow>
          (case criterion B out yb of
             Inl e \<Rightarrow> f\<lparr>failed := Some e\<rparr>
           | Inr l \<Rightarrow> f\<lparr>cur_loss := Some l\<rparr>))"
| "run_call B (xb, yb) Backward f =
     (case cur_loss f of
        None \<Rightarrow> f\<lparr>failed := Some UnboundLocalError\<rparr>
      | Some l \<Rightarrow> f\<lparr>tr := (tr f)\<lparr>opt := backward B (net (tr f)) xb yb (opt (tr f))\<rparr>\<rparr>)"
| "run_call B (xb, yb) (FirstStep z) f =
     (let (n', o') = first_step B z (net (tr f)) (opt (tr f))
      in f\<lparr>tr := (tr f)\<lparr>net := n', opt := o'\<rparr>\<rparr>)"
| "run_call B (xb, yb) (SecondStep z) f =
     (let (n', o') = second_step B z (net (tr f)) (opt (tr f))
      in f\<lparr>tr := (tr f)\<lparr>net := n', opt := o'\<rparr>\<rparr>)"
| "run_call B (xb, yb) ZeroGrad f = f\<lparr>tr := (tr f)\<lparr>opt := zero_grad B (opt (tr f))\<rparr>\<rparr>"
| "run_call B (xb, yb) Step f =
     (let (n', o') = step B (net (tr f)) (opt (tr f))
      in f\<lparr>tr := (tr f)\<lparr>net := n', opt := o'\<rparr>\<rparr>)"
| "run_call B (xb, yb) c f = f"

text \<open>
  One step of a sequence: nothing runs once a step has raised; otherwise the call is recorded
  and made.
\<close>

definition run_step :: "'o torch \<Rightarrow> tensor3 \<times> mat \<Rightarrow> 'o frame \<Rightarrow> call \<Rightarrow> 'o frame" where
  "run_step B b f c =
     (if failed f \<noteq> None then f
      else run_call B b c (f\<lparr>tr := (tr f)\<lparr>wld := record_calls [c] (wld (tr f))\<rparr>\<rparr>))"

text \<open>
  A batch trained by a sequence of steps: the steps in order, starting with no output and no
  loss, then the exception if one was raised, or the last loss appended to the losses of the
  epoch.
\<close>

definition run_sequence :: "'o torch \<Rightarrow> tensor3 \<times> mat \<Rightarrow> call list \<Rightarrow> 'o trainer \<Rightarrow> 'o trainer" where
  "run_sequence B b cs st =
     (let f = foldl (run_step B b) \<lparr>tr = st, out_batch = None, cur_loss = None, failed = None\<rparr> cs
      in (case failed f of
            Some e \<Rightarrow> (tr f)\<lparr>raised := Some e\<rparr>
          | None \<Rightarrow>
              (case cur_loss f of
                 None \<Rightarrow> (tr f)\<lparr>raised := Some UnboundLocalError\<rparr>
               | Some l \<Rightarrow> (tr f)\<lparr>loss_list := loss_list (tr f) @ [l]\<rparr>)))"

text \<open>
  The batches of an epoch, each trained by the same sequence of steps; an exception ends the
  epoch.
\<close>

fun run_batches :: "'o torch \<Rightarrow> call list \<Rightarrow> 'o trainer \<Rightarrow> (tensor3 \<times> mat) list \<Rightarrow> 'o trainer" where
  "run_batches B cs st [] = st"
| "run_batches B cs st (b # bs) =
     (let st' = run_sequence B b cs st
      in if raised st' \<noteq> None then st' else run_batches B cs st' bs)"



text \<open>
  Seeding in the words of the specification (6): every generator is seeded with the one
  seed, by the four calls of the source.
\<close>

definition seeded_world :: "int \<Rightarrow> world \<Rightarrow> world" where
  "seeded_world s w =
     \<lparr>torch_rng = Seeded s 0, python_rng = Seeded s 0, numpy_rng = Seeded s 0,
      cuda_rng = Seeded s 0,
      calls = calls w @ [ManualSeed s, RandomSeed s, NpRandomSeed s, CudaManualSeedAll s]\<rparr>"

section \<open>A small backend whose optimizer moves the network\<close>

text \<open>
  A second backend for concrete runs, like the first except for the optimizer. The
  gradients are one number \<open>g\<close>, which \<^verbatim>\<open>backward\<close> increases by one and
  \<^verbatim>\<open>zero_grad\<close> sets to zero; the optimizer keeps it with the displacement \<open>e\<close> of
  the last ascent. \<^verbatim>\<open>first_step\<close> moves the bias of the forecast head up by \<open>g\<close>
  and keeps the displacement; \<^verbatim>\<open>second_step\<close> takes the displacement back and moves
  the bias down by \<open>g\<close>; \<^verbatim>\<open>step\<close> moves the bias down by \<open>g\<close>.
\<close>

definition shift_head :: "real \<Rightarrow> SAMFormerArchitecture \<Rightarrow> SAMFormerArchitecture" where
  "shift_head a n =
     n\<lparr>linear_forecaster :=
         (linear_forecaster n)\<lparr>bias := map (\<lambda>b. b + a) (bias (linear_forecaster n))\<rparr>\<rparr>"

definition step_torch :: "string \<Rightarrow> (real \<times> real) torch" where
  "step_torch cls =
     \<lparr>has_sdpa = True,
      Linear_new = (\<lambda>i k g. (\<lparr>weight = replicate k (replicate i 0), bias = replicate k 0\<rparr>, draw g)),
      RevIN_new = (\<lambda>d. \<lparr>num_features = d, eps = 1 / 100000, affine_weight = replicate d 1,
                        affine_bias = replicate d 0, mean = [], stdev = []\<rparr>),
      SAM_new = (\<lambda>n b r l d. (0, 0)),
      optimizer_class_name = cls,
      loader_iter = toy_loader,
      criterion = mse_loss,
      backward = (\<lambda>n x y. \<lambda>(g, e). (g + 1, e)),
      first_step = (\<lambda>z n. \<lambda>(g, e). (shift_head g n, (if z then 0 else g, g))),
      second_step = (\<lambda>z n. \<lambda>(g, e). (shift_head (- e - g) n, (if z then 0 else g, 0))),
      zero_grad = (\<lambda>(g, e). (0, e)),
      step = (\<lambda>n. \<lambda>(g, e). (shift_head (- g) n, (g, e)))\<rparr>"

text \<open>
  The network of the small backends with the bias of the forecast head at \<open>a\<close>, and the
  state of the loop before the first batch.
\<close>

definition bias_net :: "real \<Rightarrow> SAMFormerArchitecture" where
  "bias_net a = (toy_net 2 2 16 2 False)\<lparr>linear_forecaster := \<lparr>weight = replicate 2 (replicate 2 0), bias = [a, a]\<rparr>\<rparr>"

definition step_trainer :: "(real \<times> real) trainer" where
  "step_trainer = \<lparr>net = bias_net 0, opt = (0, 0), wld = toy_world, loss_list = [], raised = None\<rparr>"

section \<open>The forward pass in the words of the specification\<close>

text \<open>
  A matrix of \<open>r\<close> rows of \<open>c\<close> values each.
\<close>

definition rect :: "nat \<Rightarrow> nat \<Rightarrow> mat \<Rightarrow> bool" where
  "rect r c m \<longleftrightarrow> length m = r \<and> list_all (\<lambda>row. length row = c) m"

text \<open>
  The shapes \<^verbatim>\<open>SAMFormerArchitecture(num_channels=d, seq_len=l, hid_dim=hid,
  pred_horizon=h)\<close> gives its sub-modules. On other shapes the library raises or
  broadcasts where the lists of this model are cut to the shorter length, so the theorems
  about values are stated for networks of these shapes and inputs that fit them.
\<close>

definition built_for :: "SAMFormerArchitecture \<Rightarrow> nat \<Rightarrow> nat \<Rightarrow> nat \<Rightarrow> nat \<Rightarrow> bool" where
  "built_for n d l hid h \<longleftrightarrow>
     num_features (revin n) = d
     \<and> length (affine_weight (revin n)) = d \<and> length (affine_bias (revin n)) = d
     \<and> rect hid l (weight (compute_keys n)) \<and> length (bias (compute_keys n)) = hid
     \<and> rect hid l (weight (compute_queries n)) \<and> length (bias (compute_queries n)) = hid
     \<and> rect l l (weight (compute_values n)) \<and> length (bias (compute_values n)) = l
     \<and> rect h l (weight (linear_forecaster n)) \<and> length (bias (linear_forecaster n)) = h"

text \<open>
  The specification (4.1, 4.4) on one sample, a matrix of one row per channel along the
  time axis. Normalising: for each channel, \<^verbatim>\<open>(x - mean) / (std + eps)\<close> with the mean
  and the standard deviation of that row, scaled and shifted by the affine parameters of the
  channel. Denormalising with the statistics of the input sample \<open>s\<close>: the inverse affine
  transform, times the standard deviation, plus the mean.
\<close>

definition normalize_series :: "RevIN \<Rightarrow> mat \<Rightarrow> mat" where
  "normalize_series r s =
     map (\<lambda>(c, row). map (\<lambda>v. (v - mean_of row) / (std_of row + eps r) * affine_weight r ! c
                               + affine_bias r ! c) row)
       (zip [0..<length s] s)"

definition denormalize_series :: "RevIN \<Rightarrow> mat \<Rightarrow> mat \<Rightarrow> mat" where
  "denormalize_series r s out =
     map (\<lambda>(c, row). map (\<lambda>v. (v - affine_bias r ! c) / affine_weight r ! c * std_of (s ! c)
                               + mean_of (s ! c)) row)
       (zip [0..<length out] out)"

text \<open>
  The steps of 4.4 on one sample: normalise if enabled; queries, keys and values from the
  normalised input and the attention over them; the residual sum; the forecast head; and
  denormalise if enabled. No transpose appears: the statistics are those of the rows.
\<close>

definition forward_series :: "SAMFormerArchitecture \<Rightarrow> mat \<Rightarrow> mat" where
  "forward_series n s =
     (let x_norm = (if use_revin n then normalize_series (revin n) s else s);
          queries = map (Linear_row (compute_queries n)) x_norm;
          keys = map (Linear_row (compute_keys n)) x_norm;
          vals = map (Linear_row (compute_values n)) x_norm;
          att_score = attend queries keys vals;
          out = map (Linear_row (linear_forecaster n)) (map2 (map2 (+)) x_norm att_score)
      in if use_revin n then denormalize_series (revin n) s out else out)"

text \<open>
  The source on one sample, with its transposes: the statistics the normaliser computes for
  a sample of shape (length, channels), and what \<^verbatim>\<open>forward\<close> does to each sample of
  the batch.
\<close>

definition sample_mean :: "mat \<Rightarrow> vec" where
  "sample_mean t = map (\<lambda>c. mean_of (column t c)) [0..<width t]"

definition sample_stdev :: "mat \<Rightarrow> vec" where
  "sample_stdev t = map (\<lambda>c. std_of (column t c)) [0..<width t]"

definition forward_sample :: "SAMFormerArchitecture \<Rightarrow> mat \<Rightarrow> mat" where
  "forward_sample n s =
     (let t = mat_transpose s;
          x_norm = (if use_revin n
                    then mat_transpose (map (normalize_row (revin n) (sample_mean t) (sample_stdev t)) t)
                    else s);
          queries = map (Linear_row (compute_queries n)) x_norm;
          keys = map (Linear_row (compute_keys n)) x_norm;
          vals = map (Linear_row (compute_values n)) x_norm;
          att_score = attend queries keys vals;
          out = map (Linear_row (linear_forecaster n)) (map2 (map2 (+)) x_norm att_score)
      in if use_revin n
         then mat_transpose (map (denormalize_row (revin n) (sample_mean t) (sample_stdev t))
                                (mat_transpose out))
         else out)"

text \<open>
  Two networks with the same parameters and the same \<^verbatim>\<open>use_revin\<close>: they may differ in
  the stored statistics and in the training flag.
\<close>

definition same_params :: "SAMFormerArchitecture \<Rightarrow> SAMFormerArchitecture \<Rightarrow> bool" where
  "same_params a b \<longleftrightarrow>
     compute_keys a = compute_keys b \<and> compute_queries a = compute_queries b
     \<and> compute_values a = compute_values b \<and> linear_forecaster a = linear_forecaster b
     \<and> use_revin a = use_revin b \<and> eps (revin a) = eps (revin b)
     \<and> affine_weight (revin a) = affine_weight (revin b)
     \<and> affine_bias (revin a) = affine_bias (revin b)"

text \<open>
  An instance holding a network with normalisation enabled, and three samples of two
  channels and two time steps.
\<close>

definition toy_fitted :: SAMFormer where
  "toy_fitted = (toy_self 2 None)\<lparr>network := Some (toy_net 2 2 16 2 True)\<rparr>"

definition toy_series :: tensor3 where
  "toy_series = [[[1, 3], [2, 4]], [[5, 7], [6, 8]], [[0, 0], [2, 2]]]"

section \<open>The round trip of the normaliser\<close>




section \<open>Theorems\<close>

subsection \<open>The calls of the training loop\<close>

lemma calls_record_calls: "calls (record_calls cs w) = calls w @ cs"
  by (simp add: record_calls_def)

lemma fit_batch_calls:
  assumes "raised (fit_batch B st b) = None"
  shows "calls (wld (fit_batch B st b)) = calls (wld st) @ batch_calls B"
  using assms
  by (auto simp: fit_batch_def batch_calls_def sam_batch_calls_def plain_batch_calls_def
      calls_record_calls Let_def split_def split: sum.splits if_splits)

lemma fit_batches_calls:
  "raised (fit_batches B st bs) = None \<Longrightarrow>
   calls (wld (fit_batches B st bs)) = calls (wld st) @ concat (replicate (length bs) (batch_calls B))"
proof (induction bs arbitrary: st)
  case Nil
  then show ?case by simp
next
  case (Cons b bs)
  let ?st = "fit_batch B st b"
  from Cons.prems have r: "raised ?st = None"
    by (auto simp: Let_def split: if_splits)
  with Cons.prems have "raised (fit_batches B ?st bs) = None"
    by (simp add: Let_def)
  from Cons.IH[OF this] r show ?case
    by (simp add: Let_def fit_batch_calls)
qed

lemma torch_rng_record_calls: "torch_rng (record_calls cs w) = torch_rng w"
  by (simp add: record_calls_def)

lemma fit_batch_rng: "torch_rng (wld (fit_batch B st b)) = torch_rng (wld st)"
  by (auto simp: fit_batch_def torch_rng_record_calls Let_def split_def split: sum.splits)

lemma fit_batches_rng: "torch_rng (wld (fit_batches B st bs)) = torch_rng (wld st)"
  by (induction bs arbitrary: st) (auto simp: Let_def fit_batch_rng)

lemma fit_epochs_calls:
  "raised (fit_epochs B bsz x y st es) = None \<Longrightarrow>
   calls (wld (fit_epochs B bsz x y st es))
     = calls (wld st)
       @ concat (map2 (epoch_calls (batch_calls B)) (epoch_sizes B bsz x y (torch_rng (wld st)) es) es)"
proof (induction es arbitrary: st)
  case Nil
  then show ?case by simp
next
  case (Cons e es)
  obtain batches g where lg: "loader_iter B bsz x y (torch_rng (wld st)) = (batches, g)"
    by (cases "loader_iter B bsz x y (torch_rng (wld st))")
  let ?st0 = "st\<lparr>loss_list := [], wld := (wld st)\<lparr>torch_rng := g\<rparr>\<rparr>"
  let ?st1 = "fit_batches B ?st0 batches"
  let ?st2 = "?st1\<lparr>net := (net ?st1)\<lparr>training := True\<rparr>,
                  wld := record_calls [NetworkTrain, SetDescription e] (wld ?st1)\<rparr>"
  from Cons.prems lg have r1: "raised ?st1 = None"
    by (auto simp: Let_def split: if_splits)
  with Cons.prems lg have eq: "fit_epochs B bsz x y st (e # es) = fit_epochs B bsz x y ?st2 es"
    by (simp add: Let_def)
  with Cons.prems have "raised (fit_epochs B bsz x y ?st2 es) = None" by simp
  from Cons.IH[OF this] have ih: "calls (wld (fit_epochs B bsz x y ?st2 es))
       = calls (wld ?st2)
         @ concat (map2 (epoch_calls (batch_calls B)) (epoch_sizes B bsz x y (torch_rng (wld ?st2)) es) es)" .
  have g2: "torch_rng (wld ?st2) = g"
    by (simp add: torch_rng_record_calls fit_batches_rng)
  have c1: "calls (wld ?st1) = calls (wld st) @ concat (replicate (length batches) (batch_calls B))"
    using fit_batches_calls[OF r1] by simp
  have sz: "epoch_sizes B bsz x y (torch_rng (wld st)) (e # es) = length batches # epoch_sizes B bsz x y g es"
    by (simp add: lg)
  have ec: "epoch_calls (batch_calls B) (length batches) e
      = concat (replicate (length batches) (batch_calls B)) @ [NetworkTrain, SetDescription e]"
    by (simp add: epoch_calls_def)
  show ?case
    unfolding eq ih g2 sz by (simp add: c1 calls_record_calls ec)
qed

subsection \<open>The seeding block\<close>

lemma fit_seed_None: "fit_seed None w = (None, w)"
  by (simp add: fit_seed_def)

lemma fit_seed_accepts:
  assumes "0 \<le> s" and "s < 2 ^ 32"
  shows "fit_seed (Some s) w = (None, seeded_world s w)"
  using assms by (simp add: fit_seed_def seeded_world_def record_calls_def Let_def)

lemma fit_seed_refuses:
  assumes "s < 0 \<or> 2 ^ 32 \<le> s"
  shows "fst (fit_seed (Some s) w) = Some (if s < - (2 ^ 63) \<or> 2 ^ 64 \<le> s then RuntimeError else ValueError)"
  using assms by (auto simp: fit_seed_def Let_def)

lemma fit_seed_ok_iff:
  "fst (fit_seed seed w) = None \<longleftrightarrow> (case seed of None \<Rightarrow> True | Some s \<Rightarrow> 0 \<le> s \<and> s < 2 ^ 32)"
  by (auto simp: fit_seed_def Let_def split: option.splits)

lemma fit_seed_errors:
  "fst (fit_seed seed w) = Some e \<Longrightarrow> e = RuntimeError \<or> e = ValueError"
  by (auto simp: fit_seed_def Let_def split: option.splits if_splits)

lemma calls_fit_seed:
  "fst (fit_seed seed w) = None \<Longrightarrow> calls (snd (fit_seed seed w)) = calls w @ seed_calls seed"
  by (auto simp: fit_seed_def seed_calls_def record_calls_def Let_def split: option.splits if_splits)

lemma fit_calls:
  assumes "fst (fit B self x y w) = None"
  shows "calls (snd (snd (fit B self x y w)))
       = calls w @ seed_calls (random_state self) @ setup_calls self x y
         @ concat (map2 (epoch_calls (batch_calls B))
             (epoch_sizes B (batch_size self) x y (loader_gen B self x y w) [0..<num_epochs self])
             [0..<num_epochs self])"
proof -
  define w1 where "w1 = snd (fit_seed (random_state self) w)"
  from assms have ok: "fst (fit_seed (random_state self) w) = None"
    by (cases "fit_seed (random_state self) w"; cases "fst (fit_seed (random_state self) w)")
      (auto simp: fit_def)
  then have fs: "fit_seed (random_state self) w = (None, w1)"
    by (simp add: w1_def prod_eq_iff)
  from assms fs obtain nc sl hid ph where na: "network_args x y = Inr (nc, sl, hid, ph)"
    by (cases "network_args x y") (auto simp: fit_def)
  from assms na fs have bs: "\<not> batch_size self \<le> 0"
    by (auto simp: fit_def fit_train_def Let_def split_def split: if_splits)
  obtain n0 g where init: "SAMFormerArchitecture_init B nc sl hid ph (sf_use_revin self) (torch_rng w1) = (n0, g)"
    by (cases "SAMFormerArchitecture_init B nc sl hid ph (sf_use_revin self) (torch_rng w1)")
  define w3 where "w3 = record_calls
       [NewSAM (base_optimizer self) (rho self) (learning_rate self) (weight_decay self),
        NewDataLoader (batch_size self) True]
       (record_calls [CriterionTo (device self), NetworkTo (device self), NetworkTrain]
          (record_calls [Construct nc sl hid ph (sf_use_revin self)] (w1\<lparr>torch_rng := g\<rparr>)))"
  define st0 :: "'a trainer" where "st0 = \<lparr>net = n0\<lparr>training := True\<rparr>,
      opt = SAM_new B (n0\<lparr>training := True\<rparr>) (base_optimizer self) (rho self) (learning_rate self) (weight_decay self),
      wld = w3, loss_list = [], raised = None\<rparr>"
  define st where "st = fit_epochs B (batch_size self) x y st0 [0..<num_epochs self]"
  have f: "fit B self x y w = (raised st, self\<lparr>network := Some (net st)\<rparr>, wld st)"
    using na bs init fs by (simp add: fit_def fit_train_def Let_def w3_def st0_def st_def)
  with assms have "raised st = None" by simp
  from fit_epochs_calls[OF this[unfolded st_def]] have
    ks: "calls (wld st) = calls (wld st0)
           @ concat (map2 (epoch_calls (batch_calls B))
               (epoch_sizes B (batch_size self) x y (torch_rng (wld st0)) [0..<num_epochs self])
               [0..<num_epochs self])"
    by (simp add: st_def)
  have g0: "torch_rng (wld st0) = loader_gen B self x y w"
    by (simp add: st0_def w3_def torch_rng_record_calls loader_gen_def na init w1_def[symmetric])
  have "calls (wld st0) = calls w @ seed_calls (random_state self) @ setup_calls self x y"
    using calls_fit_seed[OF ok]
    by (simp add: st0_def w3_def calls_record_calls w1_def[symmetric] setup_calls_def na)
  with ks g0 f show ?thesis by simp
qed

subsection \<open>One batch on the small backend\<close>

lemma batches_of_Nil [simp]: "batches_of n [] = []" by simp

declare batches_of.simps [simp del]

lemma toy_init:
  "SAMFormerArchitecture_init (toy_torch cls) d l h p rv g = (toy_net d l h p rv, draw (draw (draw (draw g))))"
  by (simp add: SAMFormerArchitecture_init_def toy_torch_def toy_net_def)

lemma forward_no_revin: "\<not> use_revin n \<Longrightarrow> snd (forward h n x fl) = n"
  by (simp add: forward_def Let_def split_def)

lemma toy_forward: "forward True (toy_net 2 2 16 2 False) [[[1,1],[1,1]],[[1,1],[1,1]]] True = (T2 [[0,0,0,0],[0,0,0,0]], toy_net 2 2 16 2 False)"
proof -
  have "fst (forward True (toy_net 2 2 16 2 False) [[[1,1],[1,1]],[[1,1],[1,1]]] True) = T2 [[0,0,0,0],[0,0,0,0]]"
    by (simp add: toy_net_def Let_def forward_def
     Linear_call_def Linear_row_def dot_def F_scaled_dot_product_attention_def attend_def softmax_def
     width_def column_def tensor_add_def eval_nat_numeral)
  moreover have "snd (forward True (toy_net 2 2 16 2 False) [[[1,1],[1,1]],[[1,1],[1,1]]] True) = toy_net 2 2 16 2 False"
    by (rule forward_no_revin) (simp add: toy_net_def)
  ultimately show ?thesis by (simp add: prod_eq_iff)
qed

lemma toy_torch_sel:
  "has_sdpa (toy_torch c) = True"
  "optimizer_class_name (toy_torch c) = c"
  "first_step (toy_torch c) = (\<lambda>z n s. (n, s))"
  "second_step (toy_torch c) = (\<lambda>z n s. (n, s))"
  "step (toy_torch c) = (\<lambda>n s. (n, s))"
  "criterion (toy_torch c) = mse_loss"
  "loader_iter (toy_torch c) = toy_loader"
  by (simp_all add: toy_torch_def)

lemma toy_batch_bad:
  fixes st :: "unit trainer"
  assumes "net st = toy_net 2 2 16 2 False"
  shows "fit_batch (toy_torch cls) st ([[[1,1],[1,1]],[[1,1],[1,1]]], [[1,1,1,1,1],[1,1,1,1,1]])
     = st\<lparr>wld := record_calls [Forward, Criterion] (wld st), raised := Some RuntimeError\<rparr>"
proof -
  have c: "mse_loss (T2 [[0,0,0,0],[0,0,0,0]]) [[1,1,1,1,1],[1,1,1,1,1]] = Inl RuntimeError"
    by (simp add: mse_loss_def same_shape_def)
  show ?thesis
    using assms by (simp add: fit_batch_def toy_torch_sel toy_forward c)
qed

lemma toy_batch_ok:
  fixes st :: "unit trainer"
  assumes "net st = toy_net 2 2 16 2 False"
  shows "fit_batch (toy_torch cls) st ([[[1,1],[1,1]],[[1,1],[1,1]]], [[1,1,1,1],[1,1,1,1]])
     = st\<lparr>wld := record_calls (batch_calls (toy_torch cls)) (wld st), loss_list := loss_list st @ [1]\<rparr>"
proof -
  have c: "mse_loss (T2 [[0,0,0,0],[0,0,0,0]]) [[1,1,1,1],[1,1,1,1]] = Inr 1"
    by (simp add: mse_loss_def same_shape_def mean_of_def)
  show ?thesis
    using assms by (simp add: fit_batch_def toy_torch_sel toy_forward c batch_calls_def sam_batch_calls_def plain_batch_calls_def)
qed

subsection \<open>The ways through fit\<close>

lemma fit_refused:
  "fit_seed (random_state self) w = (Some e, w1) \<Longrightarrow> fit B self x y w = (Some e, self, w1)"
  by (simp add: fit_def)

lemma fit_Inl:
  assumes "fst (fit_seed (random_state self) w) = None" and "network_args x y = Inl e"
  shows "fit B self x y w = (Some e, self, snd (fit_seed (random_state self) w))"
  using assms by (cases "fit_seed (random_state self) w") (simp add: fit_def)

lemma fit_build:
  assumes "fst (fit_seed (random_state self) w) = None"
    and "network_args x y = Inr (nc, sl, hid, ph)"
  shows "fit B self x y w
     = fit_train B self x y
         (fst (SAMFormerArchitecture_init B nc sl hid ph (sf_use_revin self)
                 (torch_rng (snd (fit_seed (random_state self) w)))))
         (record_calls [Construct nc sl hid ph (sf_use_revin self)]
            ((snd (fit_seed (random_state self) w))
               \<lparr>torch_rng := snd (SAMFormerArchitecture_init B nc sl hid ph (sf_use_revin self)
                                   (torch_rng (snd (fit_seed (random_state self) w))))\<rparr>))"
  using assms by (cases "fit_seed (random_state self) w") (simp add: fit_def split_def Let_def)

lemma fit_train_network: "network (fst (snd (fit_train B self x y n0 w))) \<noteq> None"
  by (simp add: fit_train_def Let_def)

lemma fit_Inr:
  assumes "fst (fit_seed (random_state self) w) = None"
    and "network_args x y = Inr (nc, sl, hid, ph)"
    and "SAMFormerArchitecture_init B nc sl hid ph (sf_use_revin self)
           (torch_rng (snd (fit_seed (random_state self) w))) = (n0, g)"
  shows "fit B self x y w =
     (if batch_size self \<le> 0
      then (Some ValueError, self\<lparr>network := Some (n0\<lparr>training := True\<rparr>)\<rparr>, setup_world self x y g w)
      else (let st = fit_epochs B (batch_size self) x y
                       \<lparr>net = n0\<lparr>training := True\<rparr>,
                        opt = SAM_new B (n0\<lparr>training := True\<rparr>) (base_optimizer self) (rho self)
                                (learning_rate self) (weight_decay self),
                        wld = setup_world self x y g w, loss_list = [], raised = None\<rparr>
                       [0..<num_epochs self]
            in (raised st, self\<lparr>network := Some (net st)\<rparr>, wld st)))"
  unfolding fit_build[OF assms(1,2)] assms(3)
  using assms(2) by (simp add: fit_train_def Let_def setup_world_def setup_calls_def record_calls_def)

lemma network_args_Inl_iff:
  "(\<exists>e. network_args x y = Inl e)
     \<longleftrightarrow> length (shape x) < 3 \<or> length (shape y) < 2 \<or> shape x ! 1 = 0"
  by (auto simp: network_args_def shape_at_def floordiv_def split: sum.splits if_splits)

lemma network_args_errors:
  "network_args x y = Inl e \<Longrightarrow> e = IndexError \<or> e = ZeroDivisionError"
  by (auto simp: network_args_def shape_at_def floordiv_def split: sum.splits if_splits)

subsection \<open>Two runs of fit on the small backend\<close>

lemma toy_network_args:
  "network_args toy_x (toy_y 5) = Inr (2, 2, 16, 2)"
  "network_args toy_x (toy_y 4) = Inr (2, 2, 16, 2)"
  by (simp_all add: network_args_def shape_at_def floordiv_def toy_x_def toy_y_def)

lemma toy_batches:
  "toy_loader 256 toy_x (toy_y 5) g
     = ([([[[1,1],[1,1]],[[1,1],[1,1]]], [[1,1,1,1,1],[1,1,1,1,1]])], draw g)"
  "toy_loader 256 toy_x (toy_y 4) g
     = ([([[[1,1],[1,1]],[[1,1],[1,1]]], [[1,1,1,1],[1,1,1,1]])], draw g)"
  by (simp_all add: toy_loader_def toy_x_def toy_y_def batches_of.simps[of _ "_ # _"] eval_nat_numeral)

lemma toy_self_sel:
  "random_state (toy_self e seed) = seed" "sf_use_revin (toy_self e seed) = False"
  "batch_size (toy_self e seed) = 256" "num_epochs (toy_self e seed) = e"
  "device (toy_self e seed) = ''cpu''" "base_optimizer (toy_self e seed) = ''Adam''"
  "rho (toy_self e seed) = 1/2" "learning_rate (toy_self e seed) = 1/1000"
  "weight_decay (toy_self e seed) = 1/100000"
  by (simp_all add: toy_self_def SAMFormer_init_def)

lemma toy_net_training: "toy_net d l h p rv\<lparr>training := True\<rparr> = toy_net d l h p rv"
  by (simp add: toy_net_def)

lemma toy_epochs_ok:
  fixes st :: "unit trainer"
  assumes "net st = toy_net 2 2 16 2 False" "raised st = None"
  shows "raised (fit_epochs (toy_torch cls) 256 toy_x (toy_y 4) st es) = None"
  using assms
proof (induction es arbitrary: st)
  case Nil
  then show ?case by simp
next
  case (Cons e es)
  show ?case
    apply (simp add: toy_torch_sel toy_batches Let_def)
    apply (subst toy_batch_ok, simp add: Cons.prems)+
    apply (simp add: Cons.prems)
    apply (rule Cons.IH)
     apply (simp_all add: Cons.prems toy_net_training)
    done
qed

lemma toy_fit_ok:
  assumes "fst (fit_seed seed w) = None"
  shows "fst (fit (toy_torch cls) (toy_self e seed) toy_x (toy_y 4) w) = None"
proof -
  have ok: "fst (fit_seed (random_state (toy_self e seed)) w) = None"
    using assms by (simp add: toy_self_sel)
  have i: "SAMFormerArchitecture_init (toy_torch cls) 2 2 16 2 (sf_use_revin (toy_self e seed))
           (torch_rng (snd (fit_seed (random_state (toy_self e seed)) w)))
         = (toy_net 2 2 16 2 False,
            draw (draw (draw (draw (torch_rng (snd (fit_seed (random_state (toy_self e seed)) w)))))))"
    unfolding toy_init by (simp add: toy_self_sel)
  show ?thesis
    unfolding fit_Inr[OF ok toy_network_args(2) i]
    by (simp add: toy_self_sel Let_def toy_net_training toy_epochs_ok)
qed

lemma toy_epochs_bad:
  fixes st :: "unit trainer"
  assumes "net st = toy_net 2 2 16 2 False"
  shows "fit_epochs (toy_torch cls) 256 toy_x (toy_y 5) st (e # es)
     = st\<lparr>loss_list := [],
          wld := record_calls [Forward, Criterion] ((wld st)\<lparr>torch_rng := draw (torch_rng (wld st))\<rparr>),
          raised := Some RuntimeError\<rparr>"
proof -
  let ?st0 = "st\<lparr>loss_list := [], wld := (wld st)\<lparr>torch_rng := draw (torch_rng (wld st))\<rparr>\<rparr>"
  have b: "fit_batch (toy_torch cls) ?st0 ([[[1,1],[1,1]],[[1,1],[1,1]]], [[1,1,1,1,1],[1,1,1,1,1]])
      = ?st0\<lparr>wld := record_calls [Forward, Criterion] (wld ?st0), raised := Some RuntimeError\<rparr>"
    by (rule toy_batch_bad) (simp add: assms)
  show ?thesis
    by (simp add: toy_torch_sel toy_batches b)
qed

lemma toy_fit_bad:
  "fit (toy_torch ''SAM'') (toy_self 2 None) toy_x (toy_y 5) toy_world
   = (Some RuntimeError, (toy_self 2 None)\<lparr>network := Some (toy_net 2 2 16 2 False)\<rparr>,
      toy_world\<lparr>torch_rng := Entropy 7,
        calls := [Construct 2 2 16 2 False, CriterionTo ''cpu'', NetworkTo ''cpu'', NetworkTrain,
                  NewSAM ''Adam'' (1/2) (1/1000) (1/100000), NewDataLoader 256 True,
                  Forward, Criterion]\<rparr>)"
proof -
  have s: "fit_seed (random_state (toy_self 2 None)) toy_world = (None, toy_world)"
    by (simp add: fit_seed_def toy_self_sel)
  have ok: "fst (fit_seed (random_state (toy_self 2 None)) toy_world) = None"
    by (simp add: s)
  have i: "SAMFormerArchitecture_init (toy_torch ''SAM'') 2 2 16 2 (sf_use_revin (toy_self 2 None))
           (torch_rng (snd (fit_seed (random_state (toy_self 2 None)) toy_world)))
         = (toy_net 2 2 16 2 False, Entropy 6)"
    unfolding s toy_init by (simp add: toy_self_sel toy_world_def draw_def)
  have w: "setup_world (toy_self 2 None) toy_x (toy_y 5) (Entropy 6) toy_world
      = toy_world\<lparr>torch_rng := Entropy 6,
        calls := [Construct 2 2 16 2 False, CriterionTo ''cpu'', NetworkTo ''cpu'', NetworkTrain,
                  NewSAM ''Adam'' (1/2) (1/1000) (1/100000), NewDataLoader 256 True]\<rparr>"
    unfolding setup_world_def s
    by (simp add: setup_calls_def toy_network_args record_calls_def toy_world_def toy_self_sel)
  have e: "[0..<2] = [0, Suc 0]" by (simp add: upt_rec)
  show ?thesis
    unfolding fit_Inr[OF ok toy_network_args(1) i] toy_net_training w
    unfolding toy_self_sel e
    apply (subst toy_epochs_bad)
     apply simp
    apply (simp add: record_calls_def toy_world_def draw_def)
    done
qed

subsection \<open>A batch as a sequence of steps\<close>

lemma record_calls_twice: "record_calls cs (record_calls ds w) = record_calls (ds @ cs) w"
  by (simp add: record_calls_def)

lemma fit_batch_run_sam:
  assumes "optimizer_class_name B = ''SAM''"
  shows "fit_batch B st (xb, yb) = run_sequence B (xb, yb) sam_batch_calls st"
proof -
  obtain out1 n1 where f1: "forward (has_sdpa B) (net st) xb True = (out1, n1)"
    by (cases "forward (has_sdpa B) (net st) xb True")
  show ?thesis
  proof (cases "criterion B out1 yb")
    case (Inl e)
    then show ?thesis
      by (simp add: fit_batch_def run_sequence_def run_step_def sam_batch_calls_def f1
          record_calls_twice)
  next
    case l1: (Inr l1)
    obtain n2 o2 where s1: "first_step B True n1 (backward B n1 xb yb (opt st)) = (n2, o2)"
      by (cases "first_step B True n1 (backward B n1 xb yb (opt st))")
    obtain out2 n3 where f2: "forward (has_sdpa B) n2 xb True = (out2, n3)"
      by (cases "forward (has_sdpa B) n2 xb True")
    show ?thesis
    proof (cases "criterion B out2 yb")
      case (Inl e)
      then show ?thesis
        by (simp add: fit_batch_def run_sequence_def run_step_def sam_batch_calls_def f1 l1 s1 f2
            assms record_calls_twice)
    next
      case l2: (Inr l2)
      obtain n4 o4 where s2: "second_step B True n3 (backward B n3 xb yb o2) = (n4, o4)"
        by (cases "second_step B True n3 (backward B n3 xb yb o2)")
      show ?thesis
        by (simp add: fit_batch_def run_sequence_def run_step_def sam_batch_calls_def f1 l1 s1 f2
            l2 s2 assms record_calls_twice)
    qed
  qed
qed

lemma fit_batch_run_plain:
  assumes "optimizer_class_name B \<noteq> ''SAM''"
  shows "fit_batch B st (xb, yb) = run_sequence B (xb, yb) plain_batch_calls st"
proof -
  obtain out1 n1 where f1: "forward (has_sdpa B) (net st) xb True = (out1, n1)"
    by (cases "forward (has_sdpa B) (net st) xb True")
  show ?thesis
  proof (cases "criterion B out1 yb")
    case (Inl e)
    then show ?thesis
      by (simp add: fit_batch_def run_sequence_def run_step_def plain_batch_calls_def f1
          record_calls_twice)
  next
    case l1: (Inr l1)
    obtain n2 o2 where s1: "step B n1 (backward B n1 xb yb (zero_grad B (opt st))) = (n2, o2)"
      by (cases "step B n1 (backward B n1 xb yb (zero_grad B (opt st)))")
    show ?thesis
      by (simp add: fit_batch_def run_sequence_def run_step_def plain_batch_calls_def f1 l1 s1
          assms record_calls_twice)
  qed
qed

lemma fit_batch_run:
  "fit_batch B st b = run_sequence B b (batch_calls B) st"
  by (cases b) (simp add: batch_calls_def fit_batch_run_sam fit_batch_run_plain)


subsection \<open>One batch on the backend whose optimizer moves the network\<close>

lemma step_torch_sel:
  "has_sdpa (step_torch c) = True"
  "optimizer_class_name (step_torch c) = c"
  "criterion (step_torch c) = mse_loss"
  "backward (step_torch c) = (\<lambda>n x y. \<lambda>(g, e). (g + 1, e))"
  "first_step (step_torch c) = (\<lambda>z n. \<lambda>(g, e). (shift_head g n, (if z then 0 else g, g)))"
  "second_step (step_torch c) = (\<lambda>z n. \<lambda>(g, e). (shift_head (- e - g) n, (if z then 0 else g, 0)))"
  "zero_grad (step_torch c) = (\<lambda>(g, e). (0, e))"
  "step (step_torch c) = (\<lambda>n. \<lambda>(g, e). (shift_head (- g) n, (g, e)))"
  by (simp_all add: step_torch_def)

lemma shift_bias_net: "shift_head b (bias_net a) = bias_net (a + b)"
  by (simp add: shift_head_def bias_net_def)

lemma step_forward:
  "forward True (bias_net a) [[[1,1],[1,1]],[[1,1],[1,1]]] True = (T2 [[a,a,a,a],[a,a,a,a]], bias_net a)"
proof -
  have "fst (forward True (bias_net a) [[[1,1],[1,1]],[[1,1],[1,1]]] True) = T2 [[a,a,a,a],[a,a,a,a]]"
    by (simp add: bias_net_def toy_net_def Let_def forward_def
     Linear_call_def Linear_row_def dot_def F_scaled_dot_product_attention_def attend_def softmax_def
     width_def column_def tensor_add_def eval_nat_numeral)
  moreover have "snd (forward True (bias_net a) [[[1,1],[1,1]],[[1,1],[1,1]]] True) = bias_net a"
    by (rule forward_no_revin) (simp add: bias_net_def toy_net_def)
  ultimately show ?thesis by (simp add: prod_eq_iff)
qed

lemma step_losses:
  "mse_loss (T2 [[0,0,0,0],[0,0,0,0]]) [[1,1,1,1],[1,1,1,1]] = Inr 1"
  "mse_loss (T2 [[1,1,1,1],[1,1,1,1]]) [[1,1,1,1],[1,1,1,1]] = Inr 0"
  by (simp_all add: mse_loss_def same_shape_def mean_of_def)

lemma step_batch_sam:
  "fit_batch (step_torch ''SAM'') step_trainer toy_batch
     = step_trainer\<lparr>net := bias_net (- 1), opt := (0, 0),
         wld := record_calls sam_batch_calls toy_world, loss_list := [0]\<rparr>"
  by (simp add: fit_batch_def toy_batch_def step_trainer_def step_torch_sel step_forward
      shift_bias_net step_losses sam_batch_calls_def)


subsection \<open>The sequence of one batch\<close>

lemma fit_batches_run:
  assumes "\<And>st b. fit_batch B st b = run_sequence B b cs st"
  shows "fit_batches B st bs = run_batches B cs st bs"
  by (induction bs arbitrary: st) (simp_all add: assms Let_def)

text \<open>
  C1. When the class of the optimizer is named \<^verbatim>\<open>SAM\<close>, the body of the loop is the
  sequence forward, loss, backward, \<^verbatim>\<open>first_step(zero_grad=True)\<close>, forward, loss,
  backward, \<^verbatim>\<open>second_step(zero_grad=True)\<close> run step by step: the state it leaves, with
  the network, the optimizer and its gradients, the losses, the exception and the record of the
  calls, is the one that sequence leaves when every step acts on what the step before it
  left. So the second forward pass runs the network the ascent step returned, after that
  step and its zeroing of the gradients are complete. Every batch of an epoch is trained by
  that sequence, until one raises. And when \<^verbatim>\<open>fit\<close> returns, the
  calls it made are the seeding and set-up calls followed, for every epoch, by one such block
  for each batch the loader yields and the end of the epoch.
\<close>

theorem fit_sam_sequence:
  assumes "optimizer_class_name B = ''SAM''"
  shows "fit_batch B st b = run_sequence B b sam_batch_calls st
     \<and> fit_batches B st bs = run_batches B sam_batch_calls st bs
     \<and> (fst (fit B self x y w) = None \<longrightarrow>
          calls (snd (snd (fit B self x y w)))
            = calls w @ seed_calls (random_state self) @ setup_calls self x y
              @ concat (map2 (epoch_calls sam_batch_calls)
                  (epoch_sizes B (batch_size self) x y (loader_gen B self x y w) [0..<num_epochs self])
                  [0..<num_epochs self]))"
proof -
  have r: "fit_batch B st b = run_sequence B b sam_batch_calls st" for st b
    using fit_batch_run[of B st b] assms by (simp add: batch_calls_def)
  from r fit_batches_run[of B sam_batch_calls st bs, OF r] fit_calls[of B self x y w] assms
  show ?thesis by (simp add: batch_calls_def)
qed

text \<open>
  The hypotheses of C1 hold for a run of two epochs on the small backend, and for one batch
  on the backend whose optimizer moves the network. There the first loss, with the bias of
  the head at 0, is 1; the ascent step moves the bias to 1; the loss that is kept is 0, the
  one of the second forward pass at the moved bias; the descent step takes the displacement
  back and moves the bias to -1, and the gradients are zero again.
\<close>

theorem fit_sam_sequence_witness:
  "optimizer_class_name (toy_torch ''SAM'') = ''SAM''
   \<and> fst (fit (toy_torch ''SAM'') (toy_self 2 None) toy_x (toy_y 4) toy_world) = None
   \<and> calls (snd (snd (fit (toy_torch ''SAM'') (toy_self 2 None) toy_x (toy_y 4) toy_world)))
       = calls toy_world @ seed_calls (random_state (toy_self 2 None))
         @ setup_calls (toy_self 2 None) toy_x (toy_y 4)
         @ concat (map2 (epoch_calls sam_batch_calls)
             (epoch_sizes (toy_torch ''SAM'') (batch_size (toy_self 2 None)) toy_x (toy_y 4)
                (loader_gen (toy_torch ''SAM'') (toy_self 2 None) toy_x (toy_y 4) toy_world)
                [0..<num_epochs (toy_self 2 None)])
             [0..<num_epochs (toy_self 2 None)])
   \<and> optimizer_class_name (step_torch ''SAM'') = ''SAM''
   \<and> mse_loss (fst (forward True (bias_net 0) (fst toy_batch) True)) (snd toy_batch) = Inr 1
   \<and> run_sequence (step_torch ''SAM'') toy_batch sam_batch_calls step_trainer
       = step_trainer\<lparr>net := bias_net (- 1), opt := (0, 0),
           wld := record_calls sam_batch_calls toy_world, loss_list := [0]\<rparr>"
proof -
  have a: "optimizer_class_name (toy_torch ''SAM'') = ''SAM''" by (simp add: toy_torch_sel)
  have b: "fst (fit (toy_torch ''SAM'') (toy_self 2 None) toy_x (toy_y 4) toy_world) = None"
    by (rule toy_fit_ok) (simp add: fit_seed_None)
  have c: "optimizer_class_name (step_torch ''SAM'') = ''SAM''" by (simp add: step_torch_sel)
  have d: "mse_loss (fst (forward True (bias_net 0) (fst toy_batch) True)) (snd toy_batch) = Inr 1"
    by (simp add: toy_batch_def step_forward step_losses)
  from fit_sam_sequence[OF a, where self = "toy_self 2 None" and x = toy_x and y = "toy_y 4"
      and w = toy_world]
    fit_sam_sequence[OF c, where st = step_trainer and b = toy_batch] a b c d step_batch_sam
  show ?thesis by simp
qed



subsection \<open>Shapes\<close>

text \<open>
  C6, as stated: when the dimensions of the data are inconsistent, \<^verbatim>\<open>fit\<close> fails before
  any parameter is allocated. Here x has 2 channels and y has 5 columns, which is no
  multiple of 2. The network is built all the same, with horizon 2, and assigned to the
  instance; the run fails later, at the first loss, whose operands have 4 and 5 columns.
\<close>

theorem fit_allocates_unchecked_counterexample:
  "network_args toy_x (toy_y 5) = Inr (2, 2, 16, 2)
   \<and> 2 * 2 \<noteq> (5::nat)
   \<and> fst (fit (toy_torch ''SAM'') (toy_self 2 None) toy_x (toy_y 5) toy_world) = Some RuntimeError
   \<and> network (fst (snd (fit (toy_torch ''SAM'') (toy_self 2 None) toy_x (toy_y 5) toy_world)))
       = Some (toy_net 2 2 16 2 False)
   \<and> calls (snd (snd (fit (toy_torch ''SAM'') (toy_self 2 None) toy_x (toy_y 5) toy_world)))
       = [Construct 2 2 16 2 False, CriterionTo ''cpu'', NetworkTo ''cpu'', NetworkTrain,
          NewSAM ''Adam'' (1/2) (1/1000) (1/100000), NewDataLoader 256 True, Forward, Criterion]"
  by (simp add: toy_fit_bad toy_network_args)

text \<open>
  C6, amended. The constructor of the trainer takes no dimension and \<^verbatim>\<open>fit\<close> checks
  none. It fails before the allocation in two cases only, and then leaves the instance as it
  was: the seeding block raises, which it does exactly when a seed is set that lies outside
  \<^verbatim>\<open>[0, 2**32 - 1]\<close> (\<^verbatim>\<open>RuntimeError\<close> or \<^verbatim>\<open>ValueError\<close>); or reading the
  shapes raises, which it does exactly when x has fewer than three axes or y fewer than two
  (\<^verbatim>\<open>IndexError\<close>) or x has no channel (\<^verbatim>\<open>ZeroDivisionError\<close>). In every other case
  the network is built from the channels, the length and the horizon read off the shapes,
  whatever the relation between them, and \<^verbatim>\<open>fit\<close> goes on from line 81 with that
  network, which it leaves assigned.
\<close>

theorem fit_allocation:
  "(case fit_seed (random_state self) w of
      (Some e, w1) \<Rightarrow>
        (e = RuntimeError \<or> e = ValueError) \<and> fit B self x y w = (Some e, self, w1)
    | (None, w1) \<Rightarrow>
        (case network_args x y of
           Inl e \<Rightarrow>
             (e = IndexError \<or> e = ZeroDivisionError) \<and> fit B self x y w = (Some e, self, w1)
         | Inr (num_channels, seq_len, hid_dim, pred_horizon) \<Rightarrow>
             fit B self x y w
               = fit_train B self x y
                   (fst (SAMFormerArchitecture_init B num_channels seq_len hid_dim pred_horizon
                           (sf_use_revin self) (torch_rng w1)))
                   (record_calls
                      [Construct num_channels seq_len hid_dim pred_horizon (sf_use_revin self)]
                      (w1\<lparr>torch_rng :=
                            snd (SAMFormerArchitecture_init B num_channels seq_len hid_dim
                                   pred_horizon (sf_use_revin self) (torch_rng w1))\<rparr>))
             \<and> network (fst (snd (fit B self x y w))) \<noteq> None))
   \<and> (fst (fit_seed (random_state self) w) = None
        \<longleftrightarrow> (case random_state self of None \<Rightarrow> True | Some s \<Rightarrow> 0 \<le> s \<and> s < 2 ^ 32))
   \<and> ((\<exists>e. network_args x y = Inl e)
        \<longleftrightarrow> length (shape x) < 3 \<or> length (shape y) < 2 \<or> shape x ! 1 = 0)"
proof -
  obtain eo w1 where fs: "fit_seed (random_state self) w = (eo, w1)"
    by (cases "fit_seed (random_state self) w")
  have 1: "(case fit_seed (random_state self) w of
      (Some e, w1) \<Rightarrow>
        (e = RuntimeError \<or> e = ValueError) \<and> fit B self x y w = (Some e, self, w1)
    | (None, w1) \<Rightarrow>
        (case network_args x y of
           Inl e \<Rightarrow>
             (e = IndexError \<or> e = ZeroDivisionError) \<and> fit B self x y w = (Some e, self, w1)
         | Inr (num_channels, seq_len, hid_dim, pred_horizon) \<Rightarrow>
             fit B self x y w
               = fit_train B self x y
                   (fst (SAMFormerArchitecture_init B num_channels seq_len hid_dim pred_horizon
                           (sf_use_revin self) (torch_rng w1)))
                   (record_calls
                      [Construct num_channels seq_len hid_dim pred_horizon (sf_use_revin self)]
                      (w1\<lparr>torch_rng :=
                            snd (SAMFormerArchitecture_init B num_channels seq_len hid_dim
                                   pred_horizon (sf_use_revin self) (torch_rng w1))\<rparr>))
             \<and> network (fst (snd (fit B self x y w))) \<noteq> None))"
  proof (cases eo)
    case (Some e)
    have "e = RuntimeError \<or> e = ValueError"
      using fit_seed_errors[of "random_state self" w e] fs Some by simp
    then show ?thesis
      using fs Some by (simp add: fit_refused)
  next
    case None
    then have ok: "fst (fit_seed (random_state self) w) = None" and w1: "snd (fit_seed (random_state self) w) = w1"
      using fs by simp_all
    show ?thesis
    proof (cases "network_args x y")
      case (Inl e)
      then show ?thesis
        using fs None fit_Inl[OF ok Inl] network_args_errors[OF Inl] w1 by simp
    next
      case (Inr a)
      obtain nc sl hid ph where a: "a = (nc, sl, hid, ph)" by (cases a)
      have na: "network_args x y = Inr (nc, sl, hid, ph)" using Inr a by simp
      have b: "fit B self x y w
         = fit_train B self x y
             (fst (SAMFormerArchitecture_init B nc sl hid ph (sf_use_revin self) (torch_rng w1)))
             (record_calls [Construct nc sl hid ph (sf_use_revin self)]
                (w1\<lparr>torch_rng := snd (SAMFormerArchitecture_init B nc sl hid ph (sf_use_revin self)
                                       (torch_rng w1))\<rparr>))"
        using fit_build[OF ok na, of B] by (simp add: w1)
      have "network (fst (snd (fit B self x y w))) \<noteq> None"
        unfolding b by (rule fit_train_network)
      with b show ?thesis
        using fs None na by simp
    qed
  qed
  from 1 fit_seed_ok_iff[of "random_state self" w] network_args_Inl_iff[of x y]
  show ?thesis by blast
qed

subsection \<open>Seeding\<close>

lemma seeded_world_cong: "calls w1 = calls w2 \<Longrightarrow> seeded_world s w1 = seeded_world s w2"
  by (simp add: seeded_world_def)

lemma fit_reseed:
  assumes "random_state self = Some s" and "fit_seed (Some s) w = (None, w')"
  shows "fit B self x y w
     = (case fit B (self\<lparr>random_state := None\<rparr>) x y w' of
          (e, self', w'') \<Rightarrow> (e, self'\<lparr>random_state := Some s\<rparr>, w''))"
proof -
  have r: "self\<lparr>random_state := Some s\<rparr> = self"
    using assms(1) by (cases self) simp
  have t: "(fst (fit_train B (self\<lparr>random_state := None\<rparr>) x y n0 v),
            (fst (snd (fit_train B (self\<lparr>random_state := None\<rparr>) x y n0 v)))
              \<lparr>random_state := Some s\<rparr>,
            snd (snd (fit_train B (self\<lparr>random_state := None\<rparr>) x y n0 v)))
           = fit_train B self x y n0 v" for n0 v
    using assms(1) by (cases self) (simp add: fit_train_def Let_def)
  show ?thesis
  proof (cases "network_args x y")
    case (Inl e)
    then show ?thesis
      using assms by (simp add: fit_def fit_seed_None r)
  next
    case (Inr a)
    then show ?thesis
      using assms by (cases a) (simp add: fit_def fit_seed_None split_def Let_def t)
  qed
qed

text \<open>
  A seeded run on the small backend: the four layers and the two epochs draw from the
  generator the seeding block has just seeded.
\<close>

lemma record_calls_rngs:
  "torch_rng (record_calls cs w) = torch_rng w" "python_rng (record_calls cs w) = python_rng w"
  "numpy_rng (record_calls cs w) = numpy_rng w" "cuda_rng (record_calls cs w) = cuda_rng w"
  by (simp_all add: record_calls_def)

lemma toy_epochs_rngs:
  fixes st :: "unit trainer"
  assumes "net st = toy_net 2 2 16 2 False" "raised st = None"
  shows "torch_rng (wld (fit_epochs (toy_torch cls) 256 toy_x (toy_y 4) st es))
           = (draw ^^ length es) (torch_rng (wld st))
     \<and> python_rng (wld (fit_epochs (toy_torch cls) 256 toy_x (toy_y 4) st es)) = python_rng (wld st)
     \<and> numpy_rng (wld (fit_epochs (toy_torch cls) 256 toy_x (toy_y 4) st es)) = numpy_rng (wld st)
     \<and> cuda_rng (wld (fit_epochs (toy_torch cls) 256 toy_x (toy_y 4) st es)) = cuda_rng (wld st)"
  using assms
proof (induction es arbitrary: st)
  case Nil
  then show ?case by simp
next
  case (Cons e es)
  let ?st0 = "st\<lparr>loss_list := [], wld := (wld st)\<lparr>torch_rng := draw (torch_rng (wld st))\<rparr>\<rparr>"
  let ?st1 = "?st0\<lparr>wld := record_calls (batch_calls (toy_torch cls)) (wld ?st0),
                    loss_list := loss_list ?st0 @ [1]\<rparr>"
  let ?st2 = "?st1\<lparr>net := (net ?st1)\<lparr>training := True\<rparr>,
                  wld := record_calls [NetworkTrain, SetDescription e] (wld ?st1)\<rparr>"
  have b: "fit_batch (toy_torch cls) ?st0 ([[[1,1],[1,1]],[[1,1],[1,1]]], [[1,1,1,1],[1,1,1,1]]) = ?st1"
    by (rule toy_batch_ok) (simp add: Cons.prems)
  have eq: "fit_epochs (toy_torch cls) 256 toy_x (toy_y 4) st (e # es)
      = fit_epochs (toy_torch cls) 256 toy_x (toy_y 4) ?st2 es"
    by (simp add: toy_torch_sel toy_batches b Cons.prems)
  have n2: "net ?st2 = toy_net 2 2 16 2 False" "raised ?st2 = None"
    by (simp_all add: Cons.prems toy_net_training)
  show ?case
    unfolding eq using Cons.IH[OF n2]
    by (simp add: record_calls_rngs funpow_swap1)
qed

lemma toy_fit_rngs:
  assumes "0 \<le> s" and "s < 2 ^ 32"
  shows "torch_rng (snd (snd (fit (toy_torch cls) (toy_self 2 (Some s)) toy_x (toy_y 4) w))) = Seeded s 6
     \<and> python_rng (snd (snd (fit (toy_torch cls) (toy_self 2 (Some s)) toy_x (toy_y 4) w))) = Seeded s 0"
proof -
  have fs: "fit_seed (random_state (toy_self 2 (Some s))) w = (None, seeded_world s w)"
    using assms by (simp add: toy_self_sel fit_seed_accepts)
  have ok: "fst (fit_seed (random_state (toy_self 2 (Some s))) w) = None"
    by (simp add: fs)
  have i: "SAMFormerArchitecture_init (toy_torch cls) 2 2 16 2 (sf_use_revin (toy_self 2 (Some s)))
           (torch_rng (snd (fit_seed (random_state (toy_self 2 (Some s))) w)))
         = (toy_net 2 2 16 2 False, Seeded s 4)"
    unfolding fs toy_init by (simp add: toy_self_sel seeded_world_def draw_def)
  have e: "length [0..<2] = Suc (Suc 0)" by simp
  have w: "torch_rng (setup_world (toy_self 2 (Some s)) toy_x (toy_y 4) (Seeded s 4) w) = Seeded s 4"
    "python_rng (setup_world (toy_self 2 (Some s)) toy_x (toy_y 4) (Seeded s 4) w) = Seeded s 0"
    unfolding setup_world_def fs by (simp_all add: record_calls_rngs seeded_world_def)
  define st0 :: "unit trainer" where "st0 = \<lparr>net = toy_net 2 2 16 2 False,
      opt = SAM_new (toy_torch cls) (toy_net 2 2 16 2 False) (base_optimizer (toy_self 2 (Some s)))
              (rho (toy_self 2 (Some s))) (learning_rate (toy_self 2 (Some s)))
              (weight_decay (toy_self 2 (Some s))),
      wld = setup_world (toy_self 2 (Some s)) toy_x (toy_y 4) (Seeded s 4) w,
      loss_list = [], raised = None\<rparr>"
  have n: "net st0 = toy_net 2 2 16 2 False" "raised st0 = None"
    by (simp_all add: st0_def)
  have f: "fit (toy_torch cls) (toy_self 2 (Some s)) toy_x (toy_y 4) w
      = (let st = fit_epochs (toy_torch cls) 256 toy_x (toy_y 4) st0 [0..<2]
         in (raised st, (toy_self 2 (Some s))\<lparr>network := Some (net st)\<rparr>, wld st))"
    unfolding fit_Inr[OF ok toy_network_args(2) i] toy_net_training st0_def
    by (simp only: toy_self_sel) simp
  have d: "(draw ^^ length [0..<2]) (Seeded s 4) = Seeded s 6"
    by (simp add: draw_def eval_nat_numeral)
  from toy_epochs_rngs[OF n, of cls "[0..<2]"] show ?thesis
    unfolding f Let_def by (simp only: snd_conv st0_def trainer.simps w d simp_thms)
qed

text \<open>
  C9. With a seed that the libraries take, one in \<^verbatim>\<open>[0, 2**32 - 1]\<close>, \<^verbatim>\<open>fit\<close>
  seeds the generators of torch, of Python, of NumPy and of CUDA from it before anything
  else: the run is the run without a seed from the world in which every generator has just
  been seeded with that seed, so the network is initialised and the data shuffled from it;
  and the whole run (the exception, the instance with its network, the generators and the
  calls) is the same from any two worlds that differ only in the states of the generators.
  With any other seed the seeding block raises, \<^verbatim>\<open>fit\<close> trains nothing and leaves the
  instance as it was, and the exception is the same in every run.
\<close>

theorem fit_seeded_reproducible:
  assumes "random_state self = Some s" and "calls w1 = calls w2"
  shows "if 0 \<le> s \<and> s < 2 ^ 32
         then fit B self x y w1 = fit B self x y w2
              \<and> fit B self x y w1
                  = (case fit B (self\<lparr>random_state := None\<rparr>) x y (seeded_world s w1) of
                       (e, self', w') \<Rightarrow> (e, self'\<lparr>random_state := Some s\<rparr>, w'))
         else fst (fit B self x y w1)
                = Some (if s < - (2 ^ 63) \<or> 2 ^ 64 \<le> s then RuntimeError else ValueError)
              \<and> fst (fit B self x y w2) = fst (fit B self x y w1)
              \<and> fst (snd (fit B self x y w1)) = self
              \<and> fst (snd (fit B self x y w2)) = self"
proof (cases "0 \<le> s \<and> s < 2 ^ 32")
  case True
  then have a: "fit_seed (Some s) w1 = (None, seeded_world s w1)"
    and b: "fit_seed (Some s) w2 = (None, seeded_world s w2)"
    by (simp_all add: fit_seed_accepts)
  have "fit B self x y w1 = fit B self x y w2"
    unfolding fit_reseed[OF assms(1) a] fit_reseed[OF assms(1) b]
    by (simp add: seeded_world_cong[OF assms(2)])
  with fit_reseed[OF assms(1) a, of B x y] show ?thesis
    unfolding if_P[OF True] by blast
next
  case False
  then have r: "s < 0 \<or> 2 ^ 32 \<le> s" by auto
  have f: "fst (fit B self x y v)
       = Some (if s < - (2 ^ 63) \<or> 2 ^ 64 \<le> s then RuntimeError else ValueError)
     \<and> fst (snd (fit B self x y v)) = self" for v
  proof -
    obtain eo v1 where fs: "fit_seed (Some s) v = (eo, v1)"
      by (cases "fit_seed (Some s) v")
    with fit_seed_refuses[OF r, of v]
    have "eo = Some (if s < - (2 ^ 63) \<or> 2 ^ 64 \<le> s then RuntimeError else ValueError)" by simp
    with fs show ?thesis
      using assms(1) by (simp add: fit_def)
  qed
  from f[of w1] f[of w2] show ?thesis
    unfolding if_not_P[OF False] by simp
qed

text \<open>
  The hypotheses of C9 hold for two worlds with different generator states, with the seed 42,
  where the run ends without an exception and leaves the generator of torch six draws after
  its seeding with 42 (four layers, two epochs), and with the seed -1, where NumPy refuses
  it.
\<close>

theorem fit_seeded_reproducible_witness:
  "random_state (toy_self 2 (Some 42)) = Some 42 \<and> calls toy_world = calls toy_world2
   \<and> toy_world \<noteq> toy_world2
   \<and> fit (toy_torch ''SAM'') (toy_self 2 (Some 42)) toy_x (toy_y 4) toy_world
     = fit (toy_torch ''SAM'') (toy_self 2 (Some 42)) toy_x (toy_y 4) toy_world2
   \<and> fit (toy_torch ''SAM'') (toy_self 2 (Some 42)) toy_x (toy_y 4) toy_world
     = (case fit (toy_torch ''SAM'') ((toy_self 2 (Some 42))\<lparr>random_state := None\<rparr>) toy_x (toy_y 4)
               (seeded_world 42 toy_world) of
          (e, self', w') \<Rightarrow> (e, self'\<lparr>random_state := Some 42\<rparr>, w'))
   \<and> fst (fit (toy_torch ''SAM'') (toy_self 2 (Some 42)) toy_x (toy_y 4) toy_world) = None
   \<and> torch_rng (snd (snd (fit (toy_torch ''SAM'') (toy_self 2 (Some 42)) toy_x (toy_y 4) toy_world)))
       = Seeded 42 6
   \<and> python_rng (snd (snd (fit (toy_torch ''SAM'') (toy_self 2 (Some 42)) toy_x (toy_y 4) toy_world)))
       = Seeded 42 0
   \<and> random_state (toy_self 2 (Some (- 1))) = Some (- 1)
   \<and> fst (fit (toy_torch ''SAM'') (toy_self 2 (Some (- 1))) toy_x (toy_y 4) toy_world)
       = Some ValueError
   \<and> fst (snd (fit (toy_torch ''SAM'') (toy_self 2 (Some (- 1))) toy_x (toy_y 4) toy_world))
       = toy_self 2 (Some (- 1))"
proof -
  have a: "random_state (toy_self 2 (Some 42)) = Some 42" by (simp add: toy_self_sel)
  have a': "random_state (toy_self 2 (Some (- 1))) = Some (- 1)" by (simp add: toy_self_sel)
  have b: "calls toy_world = calls toy_world2" by (simp add: toy_world_def toy_world2_def)
  have c: "toy_world \<noteq> toy_world2" by (simp add: toy_world_def toy_world2_def)
  have d: "fst (fit (toy_torch ''SAM'') (toy_self 2 (Some 42)) toy_x (toy_y 4) toy_world) = None"
    by (rule toy_fit_ok) (simp add: fit_seed_ok_iff)
  have p: "(0::int) \<le> 42 \<and> (42::int) < 2 ^ 32" by simp
  have q: "\<not> ((0::int) \<le> - 1 \<and> (- 1::int) < 2 ^ 32)" by simp
  have v: "\<not> ((- 1::int) < - (2 ^ 63) \<or> (2::int) ^ 64 \<le> - 1)" by simp
  note t1 = fit_seeded_reproducible[OF a b, of "toy_torch ''SAM''" toy_x "toy_y 4"]
  note t2 = fit_seeded_reproducible[OF a' b, of "toy_torch ''SAM''" toy_x "toy_y 4"]
  from t1 have e: "fit (toy_torch ''SAM'') (toy_self 2 (Some 42)) toy_x (toy_y 4) toy_world
     = fit (toy_torch ''SAM'') (toy_self 2 (Some 42)) toy_x (toy_y 4) toy_world2"
    and f: "fit (toy_torch ''SAM'') (toy_self 2 (Some 42)) toy_x (toy_y 4) toy_world
     = (case fit (toy_torch ''SAM'') ((toy_self 2 (Some 42))\<lparr>random_state := None\<rparr>) toy_x (toy_y 4)
               (seeded_world 42 toy_world) of
          (e, self', w') \<Rightarrow> (e, self'\<lparr>random_state := Some 42\<rparr>, w'))"
    unfolding if_P[OF p] by blast+
  from t2 have g: "fst (fit (toy_torch ''SAM'') (toy_self 2 (Some (- 1))) toy_x (toy_y 4) toy_world)
       = Some ValueError"
    and h: "fst (snd (fit (toy_torch ''SAM'') (toy_self 2 (Some (- 1))) toy_x (toy_y 4) toy_world))
       = toy_self 2 (Some (- 1))"
    unfolding if_not_P[OF q] if_not_P[OF v] by blast+
  have k: "torch_rng (snd (snd (fit (toy_torch ''SAM'') (toy_self 2 (Some 42)) toy_x (toy_y 4) toy_world)))
       = Seeded 42 6"
    and m: "python_rng (snd (snd (fit (toy_torch ''SAM'') (toy_self 2 (Some 42)) toy_x (toy_y 4) toy_world)))
       = Seeded 42 0"
    using toy_fit_rngs[of 42 "''SAM''" toy_world] by simp_all
  show ?thesis
    by (intro conjI a a' b c d e f k m g h)
qed

text \<open>
  C10. For x of shape (n, d, l) with d channels and y of shape (m, w), when the seeding
  block does not raise, the arguments of the constructor are d, l, 16 and \<open>w div d\<close>, the
  floor of the quotient, and \<^verbatim>\<open>fit\<close> goes on from line 81 with the network the
  constructor builds from them: its forecast head is made for the horizon \<open>w div d\<close>. No
  hypothesis asks that d divide w: a width that is no multiple is floored, and the network is
  built.
\<close>

theorem pred_horizon_floor:
  assumes "shape x = [n, d, l]" and "shape y = [m, wd]" and "d \<noteq> 0"
    and "fst (fit_seed (random_state self) w) = None"
  shows "network_args x y = Inr (d, l, 16, wd div d)
     \<and> fit B self x y w
         = fit_train B self x y
             (fst (SAMFormerArchitecture_init B d l 16 (wd div d) (sf_use_revin self)
                     (torch_rng (snd (fit_seed (random_state self) w)))))
             (record_calls [Construct d l 16 (wd div d) (sf_use_revin self)]
                ((snd (fit_seed (random_state self) w))
                   \<lparr>torch_rng := snd (SAMFormerArchitecture_init B d l 16 (wd div d)
                                       (sf_use_revin self)
                                       (torch_rng (snd (fit_seed (random_state self) w))))\<rparr>))
     \<and> linear_forecaster
         (fst (SAMFormerArchitecture_init B d l 16 (wd div d) (sf_use_revin self) g))
         = fst (Linear_new B l (wd div d)
                  (snd (Linear_new B l l (snd (Linear_new B l 16 (snd (Linear_new B l 16 g)))))))"
proof -
  have na: "network_args x y = Inr (d, l, 16, wd div d)"
    using assms(1-3) by (simp add: network_args_def shape_at_def floordiv_def)
  have "linear_forecaster
         (fst (SAMFormerArchitecture_init B d l 16 (wd div d) (sf_use_revin self) g))
         = fst (Linear_new B l (wd div d)
                  (snd (Linear_new B l l (snd (Linear_new B l 16 (snd (Linear_new B l 16 g)))))))"
    by (simp add: SAMFormerArchitecture_init_def split_def Let_def)
  with na fit_build[OF assms(4) na, of B] show ?thesis by simp
qed

text \<open>
  The hypotheses of C10 hold for 2 channels and 5 target columns, which 2 does not divide:
  the network the run leaves has a forecast head of 2 outputs.
\<close>

theorem pred_horizon_floor_witness:
  "shape toy_x = [2, 2, 2] \<and> shape (toy_y 5) = [2, 5] \<and> (2::nat) \<noteq> 0 \<and> \<not> (2::nat) dvd 5
   \<and> fst (fit_seed (random_state (toy_self 2 None)) toy_world) = None
   \<and> network_args toy_x (toy_y 5) = Inr (2, 2, 16, 5 div 2)
   \<and> network (fst (snd (fit (toy_torch ''SAM'') (toy_self 2 None) toy_x (toy_y 5) toy_world)))
       = Some (toy_net 2 2 16 2 False)
   \<and> length (weight (linear_forecaster (toy_net 2 2 16 2 False))) = 5 div 2"
proof -
  have a: "shape toy_x = [2, 2, 2]" by (simp add: toy_x_def)
  have b: "shape (toy_y 5) = [2, 5]" by (simp add: toy_y_def)
  have c: "(2::nat) \<noteq> 0" by simp
  have d: "\<not> (2::nat) dvd 5" by simp
  have e: "fst (fit_seed (random_state (toy_self 2 None)) toy_world) = None"
    by (simp add: toy_self_sel fit_seed_None)
  have f: "length (weight (linear_forecaster (toy_net 2 2 16 2 False))) = 5 div 2"
    by (simp add: toy_net_def)
  have g: "network_args toy_x (toy_y 5) = Inr (2, 2, 16, 5 div 2)"
    using pred_horizon_floor[OF a b c e, of "toy_torch ''SAM''"] by blast
  have h: "network (fst (snd (fit (toy_torch ''SAM'') (toy_self 2 None) toy_x (toy_y 5) toy_world)))
       = Some (toy_net 2 2 16 2 False)"
    by (simp add: toy_fit_bad)
  show ?thesis
    by (intro conjI a b c d e f g h)
qed

subsection \<open>The forward pass, sample by sample\<close>

lemma map_zip3:
  "map (\<lambda>(a, b, c). F a b c) (zip (map f xs) (zip (map g xs) (map h xs)))
     = map (\<lambda>x. F (f x) (g x) (h x)) xs"
  by (induction xs) auto

lemma map2_map_map: "map2 F (map f xs) (map g xs) = map (\<lambda>x. F (f x) (g x)) xs"
  by (induction xs) auto

lemma map_zip_self: "map F (zip xs (map g xs)) = map (\<lambda>x. F (x, g x)) xs"
  by (induction xs) auto

lemma normalize_row_stats [simp]: "normalize_row (r\<lparr>mean := a, stdev := b\<rparr>) = normalize_row r"
  by (simp add: normalize_row_def fun_eq_iff)

lemma denormalize_row_stats [simp]: "denormalize_row (r\<lparr>mean := a, stdev := b\<rparr>) = denormalize_row r"
  by (simp add: denormalize_row_def fun_eq_iff)

lemma Linear_call_map: "Linear_call l (map f x) = map (\<lambda>s. map (Linear_row l) (f s)) x"
  by (simp add: Linear_call_def)

lemma transpose_1_2_map: "transpose_1_2 (map f x) = map (\<lambda>s. mat_transpose (f s)) x"
  by (simp add: transpose_1_2_def)

lemma sdpa_map:
  "scaled_dot_product_attention (map f xs) (map g xs) (map h xs) = map (\<lambda>x. attend (f x) (g x) (h x)) xs"
  "F_scaled_dot_product_attention (map f xs) (map g xs) (map h xs) = map (\<lambda>x. attend (f x) (g x) (h x)) xs"
  by (simp_all add: scaled_dot_product_attention_def F_scaled_dot_product_attention_def map_zip3)

lemma tensor_add_map:
  "tensor_add (map f x) (map g x) = map (\<lambda>s. map2 (map2 (+)) (f s) (g s)) x"
  "tensor_add x (map g x) = map (\<lambda>s. map2 (map2 (+)) s (g s)) x"
  using map2_map_map[of "map2 (map2 (+))" f x g] map2_map_map[of "map2 (map2 (+))" "\<lambda>s. s" x g]
  by (simp_all add: tensor_add_def)

lemma RevIN_norm_map:
  "RevIN_call r (map f x) Norm
     = (map (\<lambda>s. map (normalize_row r (sample_mean (f s)) (sample_stdev (f s))) (f s)) x,
        r\<lparr>mean := map (\<lambda>s. sample_mean (f s)) x, stdev := map (\<lambda>s. sample_stdev (f s)) x\<rparr>)"
  using map_zip3[of "\<lambda>a b c. map (normalize_row r b c) a" f x "\<lambda>s. sample_mean (f s)" "\<lambda>s. sample_stdev (f s)"]
  by (simp add: RevIN_call_def RevIN_normalize_def Let_def sample_mean_def[abs_def]
      sample_stdev_def[abs_def] o_def)

lemma RevIN_denorm_map:
  "RevIN_call (r\<lparr>mean := map m x, stdev := map d x\<rparr>) (map f x) Denorm
     = (map (\<lambda>s. map (denormalize_row r (m s) (d s)) (f s)) x, r\<lparr>mean := map m x, stdev := map d x\<rparr>)"
  using map_zip3[of "\<lambda>a b c. map (denormalize_row r b c) a" f x m d]
  by (simp add: RevIN_call_def RevIN_denormalize_def)

text \<open>
  The forward pass treats the samples of a batch one by one, and the only state it writes
  is the pair of statistics of the normaliser.
\<close>

lemma forward_eq:
  "forward h n x fl
     = (if fl then T2 (map concat (map (forward_sample n) x)) else T3 (map (forward_sample n) x),
        if use_revin n
        then n\<lparr>revin := (revin n)\<lparr>mean := map (\<lambda>s. sample_mean (mat_transpose s)) x,
                                  stdev := map (\<lambda>s. sample_stdev (mat_transpose s)) x\<rparr>\<rparr>
        else n)"
proof (cases "use_revin n")
  case False
  then show ?thesis
    by (simp add: forward_def forward_sample_def Let_def Linear_call_def sdpa_map tensor_add_map o_def)
next
  case True
  have t: "transpose_1_2 x = map mat_transpose x"
    by (simp add: transpose_1_2_def)
  show ?thesis
    using True
    by (simp add: forward_def Let_def t RevIN_norm_map transpose_1_2_map Linear_call_map sdpa_map
        tensor_add_map RevIN_denorm_map forward_sample_def o_def)
qed

subsection \<open>Transposes of rectangular matrices\<close>

lemma rectD: "rect r c m \<Longrightarrow> length m = r" "rect r c m \<Longrightarrow> i < r \<Longrightarrow> length (m ! i) = c"
  by (auto simp: rect_def list_all_length)

lemma rectI: "length m = r \<Longrightarrow> (\<And>i. i < r \<Longrightarrow> length (m ! i) = c) \<Longrightarrow> rect r c m"
  by (auto simp: rect_def list_all_length)

lemma width_rect: "rect r c m \<Longrightarrow> 0 < r \<Longrightarrow> width m = c"
  by (cases m) (auto simp: rect_def width_def)

lemma mat_eqI:
  assumes "rect r c a" "rect r c b" "\<And>i j. i < r \<Longrightarrow> j < c \<Longrightarrow> a ! i ! j = b ! i ! j"
  shows "a = b"
proof (rule nth_equalityI)
  show "length a = length b" using assms(1,2) by (simp add: rectD)
next
  fix i assume "i < length a"
  then have i: "i < r" using assms(1) by (simp add: rectD)
  show "a ! i = b ! i"
    by (rule nth_equalityI) (use i assms in \<open>simp_all add: rectD\<close>)
qed

lemma rect_transpose: "rect r c m \<Longrightarrow> 0 < r \<Longrightarrow> rect c r (mat_transpose m)"
  by (rule rectI) (simp_all add: mat_transpose_def width_rect column_def rectD)

lemma nth_mat_transpose:
  "rect r c m \<Longrightarrow> i < r \<Longrightarrow> j < c \<Longrightarrow> mat_transpose m ! j ! i = m ! i ! j"
  by (simp add: mat_transpose_def width_rect column_def rectD)

lemma column_transpose:
  assumes "rect r c m" "i < r"
  shows "column (mat_transpose m) i = m ! i"
proof (rule nth_equalityI)
  show "length (column (mat_transpose m) i) = length (m ! i)"
    using assms by (simp add: column_def mat_transpose_def width_rect rectD)
next
  fix j assume "j < length (column (mat_transpose m) i)"
  then have "j < c"
    using assms by (simp add: column_def mat_transpose_def width_rect)
  then show "column (mat_transpose m) i ! j = m ! i ! j"
    using assms nth_mat_transpose[of r c m i j]
    by (simp add: column_def mat_transpose_def width_rect)
qed

lemma sample_stats_transpose:
  assumes "rect r c m" "0 < r" "0 < c"
  shows "sample_mean (mat_transpose m) = map mean_of m"
    and "sample_stdev (mat_transpose m) = map std_of m"
proof -
  have w: "width (mat_transpose m) = r"
    using rect_transpose[OF assms(1,2)] assms(3) by (rule width_rect)
  have "map (\<lambda>i. f (column (mat_transpose m) i)) [0..<r] = map f m" for f :: "vec \<Rightarrow> real"
    using assms(1) by (intro nth_equalityI) (simp_all add: rectD column_transpose)
  then show "sample_mean (mat_transpose m) = map mean_of m"
    and "sample_stdev (mat_transpose m) = map std_of m"
    by (simp_all add: sample_mean_def sample_stdev_def w)
qed

lemma rect_normalize_series: "rect r c m \<Longrightarrow> rect r c (normalize_series rv m)"
  by (rule rectI) (simp_all add: normalize_series_def rectD)

lemma rect_denormalize_series: "rect r c m \<Longrightarrow> rect r c (denormalize_series rv s m)"
  by (rule rectI) (simp_all add: denormalize_series_def rectD)

lemma normalize_transposed:
  assumes "rect r c m" "0 < r" "0 < c"
  shows "mat_transpose (map (normalize_row rv (sample_mean (mat_transpose m))
                                (sample_stdev (mat_transpose m))) (mat_transpose m))
         = normalize_series rv m"
proof (rule mat_eqI[of r c])
  let ?t = "mat_transpose m"
  let ?M = "map (normalize_row rv (sample_mean ?t) (sample_stdev ?t)) ?t"
  have t: "rect c r ?t" using assms by (simp add: rect_transpose)
  have M: "rect c r ?M"
    using t by (intro rectI) (simp_all add: rectD normalize_row_def)
  show "rect r c (mat_transpose ?M)" using M assms(3) by (rule rect_transpose)
  show "rect r c (normalize_series rv m)" using assms(1) by (rule rect_normalize_series)
  fix i j assume ij: "i < r" "j < c"
  have "mat_transpose ?M ! i ! j = ?M ! j ! i"
    using nth_mat_transpose[OF M ij(2,1)] .
  also have "\<dots> = (m ! i ! j - mean_of (m ! i)) / (std_of (m ! i) + eps rv) * affine_weight rv ! i
                    + affine_bias rv ! i"
    using ij t assms
    by (simp add: rectD normalize_row_def sample_stats_transpose nth_mat_transpose)
  also have "\<dots> = normalize_series rv m ! i ! j"
    using ij assms(1) by (simp add: normalize_series_def rectD)
  finally show "mat_transpose ?M ! i ! j = normalize_series rv m ! i ! j" .
qed

lemma denormalize_transposed:
  assumes "rect r c m" "0 < r" "0 < c" "rect r h out" "0 < h"
  shows "mat_transpose (map (denormalize_row rv (sample_mean (mat_transpose m))
                                (sample_stdev (mat_transpose m))) (mat_transpose out))
         = denormalize_series rv m out"
proof (rule mat_eqI[of r h])
  let ?t = "mat_transpose out"
  let ?M = "map (denormalize_row rv (sample_mean (mat_transpose m)) (sample_stdev (mat_transpose m))) ?t"
  have t: "rect h r ?t" using assms by (simp add: rect_transpose)
  have M: "rect h r ?M"
    using t by (intro rectI) (simp_all add: rectD denormalize_row_def)
  show "rect r h (mat_transpose ?M)" using M assms(5) by (rule rect_transpose)
  show "rect r h (denormalize_series rv m out)" using assms(4) by (rule rect_denormalize_series)
  fix i j assume ij: "i < r" "j < h"
  have "mat_transpose ?M ! i ! j = ?M ! j ! i"
    using nth_mat_transpose[OF M ij(2,1)] .
  also have "\<dots> = (out ! i ! j - affine_bias rv ! i) / affine_weight rv ! i * std_of (m ! i)
                    + mean_of (m ! i)"
    using ij t assms
    by (simp add: rectD denormalize_row_def sample_stats_transpose nth_mat_transpose)
  also have "\<dots> = denormalize_series rv m out ! i ! j"
    using ij assms(4) by (simp add: denormalize_series_def rectD)
  finally show "mat_transpose ?M ! i ! j = denormalize_series rv m out ! i ! j" .
qed

lemma length_Linear_row: "length (Linear_row l v) = min (length (weight l)) (length (bias l))"
  by (simp add: Linear_row_def)

lemma length_attend: "length (attend q k v) = length q"
  by (simp add: attend_def)

lemma rect_forecast_head:
  assumes "length xn = r" "length (weight l) = h" "length (bias l) = h"
  shows "rect r h (map (Linear_row l)
           (map2 (map2 (+)) xn (attend (map f xn) k v)))"
  using assms by (intro rectI) (simp_all add: length_Linear_row length_attend)

text \<open>
  On a sample of \<open>d\<close> channels and \<open>l\<close> time steps, transposing, normalising along
  axis 1 and transposing back is the normalisation of each channel row along time, and the
  same holds for the denormalisation of the head's output.
\<close>

lemma forward_sample_series:
  assumes "rect d l s" "0 < d" "0 < l"
    and "length (weight (linear_forecaster n)) = h" "length (bias (linear_forecaster n)) = h" "0 < h"
  shows "forward_sample n s = forward_series n s"
proof (cases "use_revin n")
  case False
  then show ?thesis by (simp add: forward_sample_def forward_series_def)
next
  case True
  let ?xn = "normalize_series (revin n) s"
  let ?out = "map (Linear_row (linear_forecaster n))
     (map2 (map2 (+)) ?xn (attend (map (Linear_row (compute_queries n)) ?xn)
        (map (Linear_row (compute_keys n)) ?xn) (map (Linear_row (compute_values n)) ?xn)))"
  have "length ?xn = d" using assms(1) by (simp add: normalize_series_def rectD)
  then have o: "rect d h ?out" using assms(4,5) by (rule rect_forecast_head)
  show ?thesis
    by (simp only: forward_sample_def forward_series_def Let_def True if_True
        normalize_transposed[OF assms(1-3)] denormalize_transposed[OF assms(1-3) o assms(6)])
qed

lemma rect_forward_series:
  assumes "length s = d"
    and "length (weight (linear_forecaster n)) = h" "length (bias (linear_forecaster n)) = h"
  shows "rect d h (forward_series n s)"
proof -
  let ?xn = "if use_revin n then normalize_series (revin n) s else s"
  let ?out = "map (Linear_row (linear_forecaster n))
     (map2 (map2 (+)) ?xn (attend (map (Linear_row (compute_queries n)) ?xn)
        (map (Linear_row (compute_keys n)) ?xn) (map (Linear_row (compute_values n)) ?xn)))"
  have "length ?xn = d" using assms(1) by (simp add: normalize_series_def)
  then have o: "rect d h ?out" using assms(2,3) by (rule rect_forecast_head)
  then show ?thesis
    by (auto simp: forward_series_def Let_def rect_denormalize_series)
qed

lemma length_concat_rect: "rect r c m \<Longrightarrow> length (concat m) = r * c"
  by (induction m arbitrary: r) (auto simp: rect_def)

subsection \<open>The loop of forecast\<close>

lemma same_params_refl [simp]: "same_params a a"
  by (simp add: same_params_def)

lemma same_params_trans: "same_params a b \<Longrightarrow> same_params b c \<Longrightarrow> same_params a c"
  by (simp add: same_params_def)

lemma same_params_training [simp]: "same_params (a\<lparr>training := t\<rparr>) b = same_params a b"
  "same_params a (b\<lparr>training := t\<rparr>) = same_params a b"
  by (simp_all add: same_params_def)

lemma same_params_forward: "same_params a (snd (forward sdpa a x fl))"
  by (simp add: forward_eq same_params_def)

lemma normalize_row_cong:
  "eps a = eps b \<Longrightarrow> affine_weight a = affine_weight b \<Longrightarrow> affine_bias a = affine_bias b
   \<Longrightarrow> normalize_row a = normalize_row b"
  by (simp add: normalize_row_def fun_eq_iff)

lemma denormalize_row_cong:
  "affine_weight a = affine_weight b \<Longrightarrow> affine_bias a = affine_bias b
   \<Longrightarrow> denormalize_row a = denormalize_row b"
  by (simp add: denormalize_row_def fun_eq_iff)

lemma forward_sample_cong:
  assumes "same_params a b"
  shows "forward_sample a = forward_sample b"
proof -
  have nr: "normalize_row (revin a) = normalize_row (revin b)"
    using assms by (intro normalize_row_cong) (simp_all add: same_params_def)
  have dr: "denormalize_row (revin a) = denormalize_row (revin b)"
    using assms by (intro denormalize_row_cong) (simp_all add: same_params_def)
  show ?thesis
    using assms unfolding same_params_def
    by (intro ext) (simp add: forward_sample_def Let_def nr dr)
qed

lemma forecast_loop_eq:
  "\<exists>n'. same_params n n' \<and> training n' = training n \<and>
     forecast_loop sdpa n bs outs w
       = (outs @ map (\<lambda>b. T2 (map (concat \<circ> forward_sample n) b)) bs, n',
          record_calls (concat (replicate (length bs) [NoGradEnter, Forward, NoGradExit])) w)"
proof (induction bs arbitrary: n outs w)
  case Nil
  show ?case by (simp add: record_calls_def)
next
  case (Cons b bs)
  let ?n1 = "snd (forward sdpa n b True)"
  have sp: "same_params n ?n1" by (rule same_params_forward)
  have tr: "training ?n1 = training n" by (simp add: forward_eq)
  obtain n' where n': "same_params ?n1 n'" "training n' = training ?n1"
    "forecast_loop sdpa ?n1 bs (outs @ [fst (forward sdpa n b True)])
        (record_calls [NoGradEnter, Forward, NoGradExit] w)
       = ((outs @ [fst (forward sdpa n b True)]) @ map (\<lambda>b. T2 (map (concat \<circ> forward_sample ?n1) b)) bs, n',
          record_calls (concat (replicate (length bs) [NoGradEnter, Forward, NoGradExit]))
            (record_calls [NoGradEnter, Forward, NoGradExit] w))"
    using Cons.IH by blast
  have fs: "forward_sample ?n1 = forward_sample n"
    using forward_sample_cong[OF sp] by simp
  have "forecast_loop sdpa n (b # bs) outs w
       = (outs @ map (\<lambda>b. T2 (map (concat \<circ> forward_sample n) b)) (b # bs), n',
          record_calls (concat (replicate (length (b # bs)) [NoGradEnter, Forward, NoGradExit])) w)"
    by (simp add: split_def n'(3) fs) (simp add: forward_eq record_calls_def)
  moreover have "same_params n n'" using sp n'(1) by (rule same_params_trans)
  moreover have "training n' = training n" using n'(2) tr by simp
  ultimately show ?case by blast
qed

lemma torch_cat_T2: "ms \<noteq> [] \<Longrightarrow> torch_cat (map T2 ms) = Inr (T2 (concat ms))"
proof (induction ms)
  case Nil
  then show ?case by simp
next
  case (Cons m ms)
  show ?case
  proof (cases ms)
    case Nil
    then show ?thesis by simp
  next
    case (Cons a list)
    with Cons.IH have "torch_cat (map T2 ms) = Inr (T2 (concat ms))" by simp
    with Cons show ?thesis by simp
  qed
qed

lemma concat_batches_of: "0 < k \<Longrightarrow> concat (batches_of k xs) = xs"
proof (induction k xs rule: batches_of.induct)
  case (1 n xs)
  show ?case
  proof (cases "xs = []")
    case True
    then show ?thesis by simp
  next
    case False
    with 1 show ?thesis
      by (subst batches_of.simps) simp
  qed
qed

lemma batches_of_nonempty: "0 < k \<Longrightarrow> xs \<noteq> [] \<Longrightarrow> batches_of k xs \<noteq> []"
  by (subst batches_of.simps) simp

lemma forecast_eq:
  assumes "network self = Some n" "0 < bs" "x \<noteq> []"
  shows "\<exists>n'. same_params n n' \<and> \<not> training n' \<and>
     forecast sdpa self x bs w
       = (Inr (T2 (map (concat \<circ> forward_sample n) x)), self\<lparr>network := Some n'\<rparr>,
          record_calls ([NetworkEval, NewDataLoader bs False]
             @ concat (replicate (length (batches_of (nat bs) x)) [NoGradEnter, Forward, NoGradExit])
             @ [Cat]) w)"
proof -
  let ?n0 = "n\<lparr>training := False\<rparr>"
  let ?bs = "batches_of (nat bs) x"
  let ?w1 = "record_calls [NetworkEval, NewDataLoader bs False] w"
  obtain n' where n': "same_params ?n0 n'" "training n' = training ?n0"
    "forecast_loop sdpa ?n0 ?bs [] ?w1
       = ([] @ map (\<lambda>b. T2 (map (concat \<circ> forward_sample ?n0) b)) ?bs, n',
          record_calls (concat (replicate (length ?bs) [NoGradEnter, Forward, NoGradExit])) ?w1)"
    using forecast_loop_eq by blast
  have fs: "forward_sample ?n0 = forward_sample n"
    by (rule forward_sample_cong) simp
  have ne: "map (map (concat \<circ> forward_sample n)) ?bs \<noteq> []"
    using batches_of_nonempty[of "nat bs" x] assms(2,3) by simp
  have "concat (map (map (concat \<circ> forward_sample n)) ?bs) = map (concat \<circ> forward_sample n) (concat ?bs)"
    by (simp add: map_concat)
  also have "\<dots> = map (concat \<circ> forward_sample n) x"
    using assms(2) by (simp add: concat_batches_of)
  finally have cat: "torch_cat (map (\<lambda>b. T2 (map (concat \<circ> forward_sample n) b)) ?bs)
      = Inr (T2 (map (concat \<circ> forward_sample n) x))"
    using torch_cat_T2[OF ne] by (simp add: o_def)
  have "forecast sdpa self x bs w
       = (Inr (T2 (map (concat \<circ> forward_sample n) x)), self\<lparr>network := Some n'\<rparr>,
          record_calls ([NetworkEval, NewDataLoader bs False]
             @ concat (replicate (length ?bs) [NoGradEnter, Forward, NoGradExit]) @ [Cat]) w)"
    using assms(1,2) by (simp add: forecast_def Let_def n'(3) fs cat) (simp add: record_calls_def)
  moreover have "same_params n n'" using n'(1) by simp
  moreover have "\<not> training n'" using n'(2) by simp
  ultimately show ?thesis by blast
qed

subsection \<open>What forward computes\<close>

text \<open>
  C2. For a batch of n samples of \<open>d\<close> channels and \<open>l\<close> time steps, and a forecast
  head with \<open>h\<close> outputs, \<^verbatim>\<open>forward\<close> returns, sample by sample, what the six steps
  of the specification give: normalisation of each channel along time when enabled (the
  source reaches it by a transpose before and after the normaliser), the projections and
  the attention over the normalised input, the residual sum, the forecast head, the
  denormalisation when enabled; the result has shape (n, d, h), and it is reshaped to
  (n, d * h) exactly when flattening is asked for.
\<close>

theorem forward_computes:
  assumes "built_for n d l hid h" and "list_all (rect d l) x" and "0 < d" and "0 < l" and "0 < h"
  shows "fst (forward sdpa n x fl)
           = (if fl then T2 (map (concat \<circ> forward_series n) x) else T3 (map (forward_series n) x))
     \<and> list_all (rect d h) (map (forward_series n) x)
     \<and> list_all (\<lambda>row. length row = d * h) (map (concat \<circ> forward_series n) x)"
proof -
  have hd: "length (weight (linear_forecaster n)) = h" "length (bias (linear_forecaster n)) = h"
    using assms(1) by (auto simp: built_for_def dest: rectD(1))
  have s: "forward_sample n s = forward_series n s" if "s \<in> set x" for s
    using that assms hd by (intro forward_sample_series[of d l s n h]) (simp_all add: list_all_iff)
  have r: "rect d h (forward_series n s)" if "s \<in> set x" for s
  proof -
    have "rect d l s" using that assms by (simp add: list_all_iff)
    then have "length s = d" by (rule rectD)
    then show ?thesis using hd by (intro rect_forward_series) simp_all
  qed
  have "map (forward_sample n) x = map (forward_series n) x"
    using s by simp
  then have "fst (forward sdpa n x fl)
           = (if fl then T2 (map (concat \<circ> forward_series n) x) else T3 (map (forward_series n) x))"
    by (simp add: forward_eq)
  moreover have "list_all (rect d h) (map (forward_series n) x)"
    using r by (simp add: list_all_iff)
  moreover have "list_all (\<lambda>row. length row = d * h) (map (concat \<circ> forward_series n) x)"
    using r by (simp add: list_all_iff length_concat_rect)
  ultimately show ?thesis by simp
qed

lemma toy_series_rect: "list_all (rect 2 2) toy_series"
  by (simp add: toy_series_def rect_def)

lemma toy_net_built: "built_for (toy_net d l hid h rv) d l hid h"
  by (simp add: built_for_def toy_net_def rect_def list_all_iff)

text \<open>
  The hypotheses of C2 hold for three samples and the network of the small backend with
  normalisation enabled.
\<close>

theorem forward_computes_witness:
  "built_for (toy_net 2 2 16 2 True) 2 2 16 2 \<and> list_all (rect 2 2) toy_series \<and> (0::nat) < 2
   \<and> fst (forward True (toy_net 2 2 16 2 True) toy_series True)
       = T2 (map (concat \<circ> forward_series (toy_net 2 2 16 2 True)) toy_series)
   \<and> fst (forward True (toy_net 2 2 16 2 True) toy_series False)
       = T3 (map (forward_series (toy_net 2 2 16 2 True)) toy_series)
   \<and> list_all (rect 2 2) (map (forward_series (toy_net 2 2 16 2 True)) toy_series)
   \<and> list_all (\<lambda>row. length row = 2 * 2)
        (map (concat \<circ> forward_series (toy_net 2 2 16 2 True)) toy_series)"
proof -
  have p: "(0::nat) < 2" by simp
  from forward_computes[OF toy_net_built toy_series_rect p p p, where sdpa = True and fl = True]
    forward_computes[OF toy_net_built toy_series_rect p p p, where sdpa = True and fl = False]
    toy_series_rect toy_net_built[of 2 2 16 2 True]
  show ?thesis by simp
qed

subsection \<open>What forward writes\<close>

text \<open>
  C5, amended. The forward pass writes no parameter: the four linear layers, the affine
  parameters of the normaliser and the flags are left as they were. With normalisation
  disabled the network is unchanged. With normalisation enabled the stored mean and standard
  deviation of the normaliser are overwritten with those of the batch, and nothing else.
\<close>

theorem forward_frame:
  "snd (forward sdpa n x fl)
     = (if use_revin n
        then n\<lparr>revin := (revin n)\<lparr>mean := map (\<lambda>s. sample_mean (mat_transpose s)) x,
                                  stdev := map (\<lambda>s. sample_stdev (mat_transpose s)) x\<rparr>\<rparr>
        else n)"
  by (simp add: forward_eq)

text \<open>
  C5, as stated: evaluating forward leaves every stored field unchanged. With normalisation
  enabled the normaliser stores the statistics of the batch, as the specification says of
  \<^verbatim>\<open>normalize\<close>: on one sample with channels (1, 3) and (2, 4) the stored mean goes from
  empty to (2, 3).
\<close>

theorem forward_mutates_counterexample:
  "mean (revin (toy_net 2 2 16 2 True)) = []
   \<and> mean (revin (snd (forward True (toy_net 2 2 16 2 True) [[[1, 3], [2, 4]]] True))) = [[2, 3]]
   \<and> snd (forward True (toy_net 2 2 16 2 True) [[[1, 3], [2, 4]]] True) \<noteq> toy_net 2 2 16 2 True"
proof -
  have a: "mean (revin (toy_net 2 2 16 2 True)) = []"
    by (simp add: toy_net_def)
  have b: "mean (revin (snd (forward True (toy_net 2 2 16 2 True) [[[1, 3], [2, 4]]] True))) = [[2, 3]]"
    by (simp add: forward_eq toy_net_def sample_mean_def mat_transpose_def width_def column_def
        mean_of_def eval_nat_numeral)
  from a b have "snd (forward True (toy_net 2 2 16 2 True) [[[1, 3], [2, 4]]] True) \<noteq> toy_net 2 2 16 2 True"
    by auto
  with a b show ?thesis by simp
qed

subsection \<open>Normalising and denormalising\<close>

















subsection \<open>Forecasting\<close>

text \<open>
  C7. On an instance that holds a network, for a non-empty input of samples of \<open>d\<close>
  channels and \<open>l\<close> time steps and a positive batch size, \<^verbatim>\<open>forecast\<close> returns the
  array whose i-th row is the flattened forecast of the i-th sample, so n rows of d * h
  values in the order of the input; \<^verbatim>\<open>predict\<close> is the same call; the network is left
  in evaluation mode with its parameters unchanged; the calls are \<^verbatim>\<open>eval\<close>, a loader
  without shuffling, one forward pass per batch inside \<^verbatim>\<open>no_grad\<close>, and one
  concatenation. The array does not depend on the batch size, on the attention kernel or on
  any generator, and a second call on the instance the first one leaves returns the same
  array.
\<close>

theorem forecast_contract:
  assumes "network self = Some n" and "0 < bs" and "0 < bs'" and "x \<noteq> []"
    and "built_for n d l hid h" and "list_all (rect d l) x" and "0 < d" and "0 < l" and "0 < h"
  shows "fst (forecast sdpa self x bs w) = Inr (T2 (map (concat \<circ> forward_series n) x))
     \<and> length (map (concat \<circ> forward_series n) x) = length x
     \<and> list_all (\<lambda>row. length row = d * h) (map (concat \<circ> forward_series n) x)
     \<and> predict sdpa self x bs w = forecast sdpa self x bs w
     \<and> (\<exists>n'. network (fst (snd (forecast sdpa self x bs w))) = Some n' \<and> \<not> training n'
              \<and> same_params n n')
     \<and> calls (snd (snd (forecast sdpa self x bs w)))
         = calls w @ [NetworkEval, NewDataLoader bs False]
           @ concat (replicate (length (batches_of (nat bs) x)) [NoGradEnter, Forward, NoGradExit])
           @ [Cat]
     \<and> fst (forecast sdpa' (fst (snd (forecast sdpa self x bs w))) x bs' w')
         = fst (forecast sdpa self x bs w)"
proof -
  have hd: "length (weight (linear_forecaster n)) = h" "length (bias (linear_forecaster n)) = h"
    using assms(5) by (auto simp: built_for_def dest: rectD(1))
  have s: "forward_sample m s = forward_series n s" if "s \<in> set x" "same_params n m" for s m
  proof -
    have "forward_sample m s = forward_sample n s"
      using forward_sample_cong[OF that(2)] by simp
    also have "\<dots> = forward_series n s"
      using that(1) assms hd by (intro forward_sample_series[of d l s n h]) (simp_all add: list_all_iff)
    finally show ?thesis .
  qed
  have r: "rect d h (forward_series n s)" if "s \<in> set x" for s
  proof -
    have "rect d l s" using that assms by (simp add: list_all_iff)
    then have "length s = d" by (rule rectD)
    then show ?thesis using hd by (intro rect_forward_series) simp_all
  qed
  obtain n' where n': "same_params n n'" "\<not> training n'"
    "forecast sdpa self x bs w
       = (Inr (T2 (map (concat \<circ> forward_sample n) x)), self\<lparr>network := Some n'\<rparr>,
          record_calls ([NetworkEval, NewDataLoader bs False]
             @ concat (replicate (length (batches_of (nat bs) x)) [NoGradEnter, Forward, NoGradExit])
             @ [Cat]) w)"
    using forecast_eq[OF assms(1,2,4)] by blast
  have v: "map (concat \<circ> forward_sample m) x = map (concat \<circ> forward_series n) x"
    if "same_params n m" for m
    using s[OF _ that] by simp
  have 1: "fst (forecast sdpa self x bs w) = Inr (T2 (map (concat \<circ> forward_series n) x))"
    by (simp add: n'(3) v)
  have 3: "list_all (\<lambda>row. length row = d * h) (map (concat \<circ> forward_series n) x)"
    using r by (simp add: list_all_iff length_concat_rect)
  have 5: "\<exists>m. network (fst (snd (forecast sdpa self x bs w))) = Some m \<and> \<not> training m
              \<and> same_params n m"
    using n'(1,2) by (simp add: n'(3))
  have 6: "calls (snd (snd (forecast sdpa self x bs w)))
         = calls w @ [NetworkEval, NewDataLoader bs False]
           @ concat (replicate (length (batches_of (nat bs) x)) [NoGradEnter, Forward, NoGradExit])
           @ [Cat]"
    by (simp add: n'(3) record_calls_def)
  have a: "network (self\<lparr>network := Some n'\<rparr>) = Some n'" by simp
  obtain n'' where "same_params n' n''"
    "forecast sdpa' (self\<lparr>network := Some n'\<rparr>) x bs' w'
       = (Inr (T2 (map (concat \<circ> forward_sample n') x)), self\<lparr>network := Some n'\<rparr>\<lparr>network := Some n''\<rparr>,
          record_calls ([NetworkEval, NewDataLoader bs' False]
             @ concat (replicate (length (batches_of (nat bs') x)) [NoGradEnter, Forward, NoGradExit])
             @ [Cat]) w')"
    using forecast_eq[OF a assms(3,4)] by blast
  then have 7: "fst (forecast sdpa' (fst (snd (forecast sdpa self x bs w))) x bs' w')
         = fst (forecast sdpa self x bs w)"
    by (simp add: n'(3) v n'(1))
  from 1 3 5 6 7 show ?thesis
    by (simp add: predict_def)
qed

lemma toy_fitted_network: "network toy_fitted = Some (toy_net 2 2 16 2 True)"
  by (simp add: toy_fitted_def)

lemma toy_series_batches: "length (batches_of (nat 2) toy_series) = 2"
  by (simp add: toy_series_def batches_of.simps[of _ "_ # _"] eval_nat_numeral)

text \<open>
  The hypotheses of C7 hold for three samples in batches of two.
\<close>

theorem forecast_contract_witness:
  "network toy_fitted = Some (toy_net 2 2 16 2 True) \<and> (0::int) < 2 \<and> (0::int) < 256
   \<and> toy_series \<noteq> [] \<and> built_for (toy_net 2 2 16 2 True) 2 2 16 2
   \<and> list_all (rect 2 2) toy_series
   \<and> fst (forecast True toy_fitted toy_series 2 toy_world)
       = Inr (T2 (map (concat \<circ> forward_series (toy_net 2 2 16 2 True)) toy_series))
   \<and> list_all (\<lambda>row. length row = 2 * 2)
        (map (concat \<circ> forward_series (toy_net 2 2 16 2 True)) toy_series)
   \<and> predict True toy_fitted toy_series 2 toy_world = forecast True toy_fitted toy_series 2 toy_world
   \<and> calls (snd (snd (forecast True toy_fitted toy_series 2 toy_world)))
       = [NetworkEval, NewDataLoader 2 False, NoGradEnter, Forward, NoGradExit,
          NoGradEnter, Forward, NoGradExit, Cat]
   \<and> fst (forecast False (fst (snd (forecast True toy_fitted toy_series 2 toy_world))) toy_series 256
            toy_world2)
       = fst (forecast True toy_fitted toy_series 2 toy_world)"
proof -
  have p: "(0::nat) < 2" by simp
  have q: "(0::int) < 2" "(0::int) < 256" by simp_all
  have ne: "toy_series \<noteq> []" by (simp add: toy_series_def)
  have c: "calls toy_world = []" by (simp add: toy_world_def)
  from forecast_contract[OF toy_fitted_network q ne toy_net_built toy_series_rect p p p,
      where sdpa = True and w = toy_world and sdpa' = False and w' = toy_world2]
    toy_fitted_network q ne toy_series_rect toy_series_batches c toy_net_built[of 2 2 16 2 True]
  show ?thesis by (simp add: eval_nat_numeral)
qed

subsection \<open>Forecasting before fitting\<close>

text \<open>
  C4, as stated: forecast on an instance that was never fit raises a precondition error
  rather than dereferencing the absent model. The code has no such check: the first
  statement of forecast looks up \<^verbatim>\<open>eval\<close> on \<^verbatim>\<open>None\<close>, and the error that comes
  back is the one of that lookup.
\<close>

theorem forecast_unfit_counterexample:
  "fst (forecast True (SAMFormer_init ''cuda:0'' 100 256 ''Adam'' (1/1000) (1/100000) (1/2) True None)
     [[[1, 2], [3, 4]]] 256 toy_world)
   = Inl (AttributeError ''NoneType'' ''eval'')"
  by (simp add: forecast_def SAMFormer_init_def)

text \<open>
  C4, amended: on every instance as the constructor leaves it, whatever the arguments,
  the input and the batch size, forecast and predict fail with the attribute error of
  looking up \<^verbatim>\<open>eval\<close> on \<^verbatim>\<open>None\<close>; no dedicated check precedes it, and nothing
  else is done.
\<close>

theorem forecast_unfit_attribute_error:
  "forecast h (SAMFormer_init dev epochs b base lr wd rh rv seed) x bs w
     = (Inl (AttributeError ''NoneType'' ''eval''),
        SAMFormer_init dev epochs b base lr wd rh rv seed, w)
   \<and> predict h (SAMFormer_init dev epochs b base lr wd rh rv seed) x bs w
     = (Inl (AttributeError ''NoneType'' ''eval''),
        SAMFormer_init dev epochs b base lr wd rh rv seed, w)"
  by (simp add: predict_def forecast_def SAMFormer_init_def)

end
